theory Spec2Isabelle
  imports Complex_Main
begin

section \<open>Data model of kuhl-util.c\<close>

text \<open>
  The geometry layer of \<^verbatim>\<open>lib/kuhl-util.c\<close> is embedded over an explicit model of the
  graphics device. Object names (\<^verbatim>\<open>GLuint\<close> handles), counts and array positions are
  natural numbers: no arithmetic of the embedded functions can leave the 32-bit range on
  them. Locations (\<^verbatim>\<open>GLint\<close>) are integers, with \<open>-1\<close> for a variable that the
  program does not have. C floats are real numbers; the embedded functions only copy and
  compare them, apart from the interpolation factor of the animation code.
  A C string is a \<open>string option\<close>, \<open>None\<close> being the null pointer.
\<close>

datatype error = Exit_failure | Memory_fault

datatype message =
    Warning_indices_empty
  | Error_index_count nat nat
  | Report_index_out_of_range nat nat nat
  | Warning_attrib_argument
  | Warning_attrib_missing string nat
  | Fatal_too_many_attributes
  | Warning_texture_argument
  | Warning_sampler_missing string nat
  | Error_too_many_textures
  | Error_invalid_program_or_vao nat nat
  | Error_missing_GeomTransform nat
  | Fatal_partial_attribute
  | Error_unneeded_buffer
  | Error_vertex_without_weight nat
  | Error_too_many_bones nat
  | Error_bone_without_node string
  | Warning_zero_vertices
  | Error_program_invalid nat

datatype gl_call =
    Uniform1i int int
  | UniformMatrix4fv int nat "real list list"
  | EnableVertexAttribArray nat int
  | VertexAttribPointer nat int nat nat
  | UnmapBuffer nat
  | DrawElements int nat
  | DrawArrays int nat nat

record gl_state =
  programs :: "nat list"
  vertex_arrays :: "nat list"
  buffers :: "nat list"
  texture_objects :: "nat list"
  attrib_location :: "nat \<Rightarrow> string \<Rightarrow> int"
  uniform_location :: "nat \<Rightarrow> string \<Rightarrow> int"
  current_program :: nat
  active_texture :: nat
  texture_binding_2d :: "nat \<Rightarrow> nat"
  vertex_array_binding :: nat
  array_buffer_binding :: nat
  element_array_binding :: "nat \<Rightarrow> nat"
  array_data :: "nat \<Rightarrow> real list"
  element_data :: "nat \<Rightarrow> nat list"
  mapped_buffers :: "nat list"
  validate_status :: "nat \<Rightarrow> bool"
  calls :: "gl_call list"
  messages :: "message list"

record kuhl_attrib =
  name :: "string option"
  bufferobject :: nat

record kuhl_texture =
  tex_name :: string
  textureId :: nat

text \<open>
  The scene of the importer, as the animation code reads it. Scene nodes point at their
  parent, so they live in a store from addresses to nodes; the fields are those that
  \<^verbatim>\<open>kuhl-util.c\<close> dereferences. An array with its element count is a list.
\<close>

record aiKey =
  mTime :: real
  mValue :: "real list"

record aiNodeAnim =
  mNodeName :: string
  mPositionKeys :: "aiKey list"
  mRotationKeys :: "aiKey list"
  mScalingKeys :: "aiKey list"

record aiAnimation =
  mDuration :: real
  mTicksPerSecond :: real
  mChannels :: "aiNodeAnim list"

record aiNode =
  mName :: string
  mTransformation :: "real list"
  mParent :: "nat option"
  mChildren :: "nat list"

record aiScene =
  mAnimations :: "aiAnimation list"
  mRootNode :: nat
  nodes :: "nat \<Rightarrow> aiNode option"

record aiBone =
  bone_name :: string
  mOffsetMatrix :: "real list"
  mWeights :: "(nat \<times> real) list"

record aiMesh =
  mNumVertices :: nat
  mBones :: "aiBone list"

record kuhl_bonemat =
  count :: nat
  mesh :: nat
  boneList :: "aiBone list"
  matrices :: "real list list"

record kuhl_geometry =
  vao :: nat
  program :: nat
  vertex_count :: nat
  primitive_type :: int
  attrib_count :: nat
  attribs :: "kuhl_attrib list"
  texture_count :: nat
  textures :: "kuhl_texture list"
  indices :: "nat list option"
  indices_len :: nat
  indices_bufferobject :: nat
  matrix :: "real list"
  has_been_drawn :: bool
  assimp_node :: "nat option"
  assimp_scene :: "aiScene option"
  bones :: "kuhl_bonemat option"

text \<open>
  A linked list of \<^verbatim>\<open>kuhl_geometry\<close> structs is a list of records: \<^verbatim>\<open>geom->next\<close> is
  the tail, and the null pointer is the empty list. Each node owns its bone set, as the
  importer allocates one per mesh.
\<close>

text \<open>
  The operations of \<^verbatim>\<open>vecmat.c\<close> that the animation code calls. The file is not part
  of the sources, so the operations are parameters of the embedding.
\<close>

record vecmat =
  mat4f_mult_mat4f_new :: "real list \<Rightarrow> real list \<Rightarrow> real list"
  mat4f_translateVec_new :: "real list \<Rightarrow> real list"
  mat4f_rotateQuatVec_new :: "real list \<Rightarrow> real list"
  mat4f_scaleVec_new :: "real list \<Rightarrow> real list"
  quatf_slerp_new :: "real list \<Rightarrow> real list \<Rightarrow> real \<Rightarrow> real list"

subsection \<open>Constants of the device interface\<close>

abbreviation (input) GL_POINTS :: int where "GL_POINTS \<equiv> 0"
abbreviation (input) GL_LINES :: int where "GL_LINES \<equiv> 1"
abbreviation (input) GL_LINE_LOOP :: int where "GL_LINE_LOOP \<equiv> 2"
abbreviation (input) GL_LINE_STRIP :: int where "GL_LINE_STRIP \<equiv> 3"
abbreviation (input) GL_TRIANGLES :: int where "GL_TRIANGLES \<equiv> 4"
abbreviation (input) GL_TRIANGLE_STRIP :: int where "GL_TRIANGLE_STRIP \<equiv> 5"
abbreviation (input) GL_TRIANGLE_FAN :: int where "GL_TRIANGLE_FAN \<equiv> 6"
abbreviation (input) GL_TEXTURE0 :: nat where "GL_TEXTURE0 \<equiv> 33984"
abbreviation (input) FLT_MAX :: real where "FLT_MAX \<equiv> 340282346638528859811704183484516925440"

definition mat4f_identity :: "real list" where
  "mat4f_identity = [1, 0, 0, 0,  0, 1, 0, 0,  0, 0, 1, 0,  0, 0, 0, 1]"

subsection \<open>The device calls used by the geometry layer\<close>

definition glIsProgram :: "gl_state \<Rightarrow> nat \<Rightarrow> bool" where
  "glIsProgram s p \<longleftrightarrow> p \<noteq> 0 \<and> p \<in> set (programs s)"

definition glIsVertexArray :: "gl_state \<Rightarrow> nat \<Rightarrow> bool" where
  "glIsVertexArray s v \<longleftrightarrow> v \<noteq> 0 \<and> v \<in> set (vertex_arrays s)"

definition glIsBuffer :: "gl_state \<Rightarrow> nat \<Rightarrow> bool" where
  "glIsBuffer s b \<longleftrightarrow> b \<noteq> 0 \<and> b \<in> set (buffers s)"

definition glIsTexture :: "gl_state \<Rightarrow> nat \<Rightarrow> bool" where
  "glIsTexture s t \<longleftrightarrow> t \<noteq> 0 \<and> t \<in> set (texture_objects s)"

definition glDeleteBuffers :: "nat \<Rightarrow> gl_state \<Rightarrow> gl_state" where
  "glDeleteBuffers b s = s\<lparr>buffers := removeAll b (buffers s)\<rparr>"

definition glDeleteVertexArrays :: "nat \<Rightarrow> gl_state \<Rightarrow> gl_state" where
  "glDeleteVertexArrays v s = s\<lparr>vertex_arrays := removeAll v (vertex_arrays s)\<rparr>"

definition glGetAttribLocation :: "gl_state \<Rightarrow> nat \<Rightarrow> string \<Rightarrow> int" where
  "glGetAttribLocation s p n = (if glIsProgram s p then attrib_location s p n else -1)"

definition glGetUniformLocation :: "gl_state \<Rightarrow> nat \<Rightarrow> string \<Rightarrow> int" where
  "glGetUniformLocation s p n = (if glIsProgram s p then uniform_location s p n else -1)"

text \<open>A name that no live object of the table has, and that is not 0.\<close>

definition gen_name :: "nat list \<Rightarrow> nat" where
  "gen_name used = Suc (fold max used 0)"

definition glGenBuffers :: "gl_state \<Rightarrow> nat" where
  "glGenBuffers s = gen_name (buffers s)"

definition glGenVertexArrays :: "gl_state \<Rightarrow> nat" where
  "glGenVertexArrays s = gen_name (vertex_arrays s)"

text \<open>Binding a generated name for the first time creates the object.\<close>

definition glBindVertexArray :: "nat \<Rightarrow> gl_state \<Rightarrow> gl_state" where
  "glBindVertexArray v s =
     s\<lparr>vertex_arrays := (if v \<noteq> 0 \<and> v \<notin> set (vertex_arrays s)
                          then v # vertex_arrays s else vertex_arrays s),
       vertex_array_binding := v\<rparr>"

definition glBindBuffer_ARRAY :: "nat \<Rightarrow> gl_state \<Rightarrow> gl_state" where
  "glBindBuffer_ARRAY b s =
     s\<lparr>buffers := (if b \<noteq> 0 \<and> b \<notin> set (buffers s) then b # buffers s else buffers s),
       array_buffer_binding := b\<rparr>"

text \<open>The element-array binding belongs to the bound vertex array object.\<close>

definition glBindBuffer_ELEMENT_ARRAY :: "nat \<Rightarrow> gl_state \<Rightarrow> gl_state" where
  "glBindBuffer_ELEMENT_ARRAY b s =
     s\<lparr>buffers := (if b \<noteq> 0 \<and> b \<notin> set (buffers s) then b # buffers s else buffers s),
       element_array_binding := (element_array_binding s)(vertex_array_binding s := b)\<rparr>"

definition glBufferData_ARRAY :: "real list \<Rightarrow> gl_state \<Rightarrow> gl_state" where
  "glBufferData_ARRAY d s = s\<lparr>array_data := (array_data s)(array_buffer_binding s := d)\<rparr>"

definition glBufferData_ELEMENT_ARRAY :: "nat list \<Rightarrow> gl_state \<Rightarrow> gl_state" where
  "glBufferData_ELEMENT_ARRAY d s =
     s\<lparr>element_data :=
         (element_data s)(element_array_binding s (vertex_array_binding s) := d)\<rparr>"

definition glUseProgram :: "nat \<Rightarrow> gl_state \<Rightarrow> gl_state" where
  "glUseProgram p s = s\<lparr>current_program := p\<rparr>"

definition glActiveTexture :: "nat \<Rightarrow> gl_state \<Rightarrow> gl_state" where
  "glActiveTexture u s = s\<lparr>active_texture := u\<rparr>"

text \<open>\<^verbatim>\<open>glBindTexture(GL_TEXTURE_2D, t)\<close> binds on the active texture unit.\<close>

definition glBindTexture_2D :: "nat \<Rightarrow> gl_state \<Rightarrow> gl_state" where
  "glBindTexture_2D t s =
     s\<lparr>texture_binding_2d := (texture_binding_2d s)(active_texture s := t)\<rparr>"

definition issue :: "gl_call \<Rightarrow> gl_state \<Rightarrow> gl_state" where
  "issue c s = s\<lparr>calls := calls s @ [c]\<rparr>"

definition msg :: "message \<Rightarrow> gl_state \<Rightarrow> gl_state" where
  "msg m s = s\<lparr>messages := messages s @ [m]\<rparr>"


section \<open>Attributes and textures of a geometry\<close>

text \<open>
  \<^verbatim>\<open>kuhl_geometry_sanity_check_attribute\<close>: \<open>Inr ()\<close> when the check returns,
  \<open>Inl Exit_failure\<close> when it ends the process.
\<close>

definition kuhl_geometry_sanity_check_attribute ::
  "gl_state \<Rightarrow> nat \<Rightarrow> string option \<Rightarrow> nat \<Rightarrow> error + unit" where
  "kuhl_geometry_sanity_check_attribute s bufferobject' attributeName program' =
     (let attribLoc = (case attributeName of
                         None \<Rightarrow> -1
                       | Some n \<Rightarrow> glGetAttribLocation s program' n)
      in if attribLoc \<noteq> -1 then
           (if attributeName \<noteq> None \<or> bufferobject' \<noteq> 0 then
              (if attributeName = None \<or> bufferobject' = 0 then Inl Exit_failure else Inr ())
            else Inr ())
         else
           (if glIsBuffer s bufferobject' then Inl Exit_failure else Inr ()))"

fun sanity_check_attributes :: "gl_state \<Rightarrow> nat \<Rightarrow> kuhl_attrib list \<Rightarrow> error + unit" where
  "sanity_check_attributes s program' [] = Inr ()"
| "sanity_check_attributes s program' (a # as) =
     (case kuhl_geometry_sanity_check_attribute s (bufferobject a) (name a) program' of
        Inl e \<Rightarrow> Inl e
      | Inr _ \<Rightarrow> sanity_check_attributes s program' as)"

definition kuhl_geometry_sanity_check :: "gl_state \<Rightarrow> kuhl_geometry \<Rightarrow> error + unit" where
  "kuhl_geometry_sanity_check s geom =
     (if program geom = 0 then Inl Exit_failure
      else if \<not> glIsProgram s (program geom) then Inl Exit_failure
      else if \<not> validate_status s (program geom) then Inl Exit_failure
      else if vertex_count geom < 1 then Inl Exit_failure
      else if \<not> (primitive_type geom = GL_POINTS \<or>
                  primitive_type geom = GL_LINE_STRIP \<or>
                  primitive_type geom = GL_LINE_LOOP \<or>
                  primitive_type geom = GL_LINES \<or>
                  primitive_type geom = GL_TRIANGLE_STRIP \<or>
                  primitive_type geom = GL_TRIANGLE_FAN \<or>
                  primitive_type geom = GL_TRIANGLES) then Inl Exit_failure
      else if attrib_count geom > length (attribs geom) then Inl Memory_fault
      else sanity_check_attributes s (program geom) (take (attrib_count geom) (attribs geom)))"

text \<open>
  The scan of \<^verbatim>\<open>kuhl_geometry_attrib_index\<close> from slot \<open>i\<close> on: the first slot whose
  name equals the one looked for, \<open>-1\<close> when there is none. \<^verbatim>\<open>strcmp\<close> on the null name
  of a slot is a memory fault.
\<close>

fun attrib_index_from :: "nat \<Rightarrow> string \<Rightarrow> kuhl_attrib list \<Rightarrow> error + int" where
  "attrib_index_from i n [] = Inr (-1)"
| "attrib_index_from i n (a # as) =
     (case name a of
        None \<Rightarrow> Inl Memory_fault
      | Some m \<Rightarrow> if n = m then Inr (int i) else attrib_index_from (Suc i) n as)"

definition kuhl_geometry_attrib_index ::
  "kuhl_geometry option \<Rightarrow> string option \<Rightarrow> error + int" where
  "kuhl_geometry_attrib_index geom name' =
     (case (geom, name') of
        (Some g, Some n) \<Rightarrow>
          if attrib_count g > length (attribs g) then Inl Memory_fault
          else attrib_index_from 0 n (take (attrib_count g) (attribs g))
      | _ \<Rightarrow> Inr (-1))"

text \<open>
  \<^verbatim>\<open>kuhl_geometry_attrib\<close> from the lookup of the slot on: the part of the function that
  runs once the arguments are accepted and the attribute is active in the program.
  \<^verbatim>\<open>MAX_ATTRIBUTES\<close> is declared in \<^verbatim>\<open>kuhl-util.h\<close>, which is not part of the sources:
  it is a parameter. \<^verbatim>\<open>glBufferData\<close> reads \<^verbatim>\<open>vertex_count * components\<close> floats.
\<close>

definition attrib_store ::
  "nat \<Rightarrow> gl_state \<Rightarrow> kuhl_geometry \<Rightarrow> real list \<Rightarrow> nat \<Rightarrow> string \<Rightarrow> int \<Rightarrow>
   error + kuhl_geometry \<times> gl_state" where
  "attrib_store MAX_ATTRIBUTES s geom data components n attribLocation =
     (case kuhl_geometry_attrib_index (Some geom) (Some n) of
        Inl e \<Rightarrow> Inl e
      | Inr found \<Rightarrow>
          let destIndex = (if found < 0 then attrib_count geom else nat found);
              g1 = (if found < 0 then geom\<lparr>attrib_count := attrib_count geom + 1\<rparr> else geom);
              s1 = (if found < 0 then s
                    else if glIsBuffer s (bufferobject (attribs geom ! destIndex))
                    then glDeleteBuffers (bufferobject (attribs geom ! destIndex)) s
                    else s)
          in if destIndex = MAX_ATTRIBUTES then Inl Exit_failure
             else if destIndex \<ge> length (attribs geom) then Inl Memory_fault
             else if length data < vertex_count geom * components then Inl Memory_fault
             else
               let s2 = glBindVertexArray (vao g1) s1;
                   s3 = issue (EnableVertexAttribArray (vao g1) attribLocation) s2;
                   b = glGenBuffers s3;
                   g2 = g1\<lparr>attribs := (attribs g1)[destIndex := \<lparr>name = Some n, bufferobject = b\<rparr>]\<rparr>;
                   s4 = glBindBuffer_ARRAY b s3;
                   s5 = glBufferData_ARRAY (take (vertex_count geom * components) data) s4;
                   s6 = issue (VertexAttribPointer (vao g1) attribLocation components b) s5;
                   s7 = glBindBuffer_ARRAY 0 s6
               in Inr (g2, glBindVertexArray 0 s7))"

definition kuhl_geometry_attrib ::
  "nat \<Rightarrow> gl_state \<Rightarrow> kuhl_geometry option \<Rightarrow> real list option \<Rightarrow> nat \<Rightarrow> string option \<Rightarrow> int \<Rightarrow>
   error + kuhl_geometry option \<times> gl_state" where
  "kuhl_geometry_attrib MAX_ATTRIBUTES s geom data components name' warnIfAttribMissing =
     (if name' = None \<or> name' = Some [] then Inr (geom, msg Warning_attrib_argument s)
      else if geom = None then Inr (geom, msg Warning_attrib_argument s)
      else if data = None then Inr (geom, msg Warning_attrib_argument s)
      else if components = 0 then Inr (geom, msg Warning_attrib_argument s)
      else if \<not> glIsVertexArray s (vao (the geom)) then Inr (geom, msg Warning_attrib_argument s)
      else
        let attribLocation = glGetAttribLocation s (program (the geom)) (the name')
        in if attribLocation = -1 then
             Inr (geom, if warnIfAttribMissing \<noteq> 0
                        then msg (Warning_attrib_missing (the name') (program (the geom))) s
                        else s)
           else
             (case attrib_store MAX_ATTRIBUTES s (the geom) (the data) components (the name')
                     attribLocation of
                Inl e \<Rightarrow> Inl e
              | Inr (g, s') \<Rightarrow> Inr (Some g, s')))"

text \<open>
  The scan of \<^verbatim>\<open>kuhl_geometry_texture\<close> for a slot of the same name: the loop has no
  \<^verbatim>\<open>break\<close>, so the last such slot is the one taken.
\<close>

fun texture_dest :: "string \<Rightarrow> kuhl_texture list \<Rightarrow> nat \<Rightarrow> nat \<Rightarrow> nat" where
  "texture_dest n [] i destIndex = destIndex"
| "texture_dest n (t # ts) i destIndex =
     texture_dest n ts (Suc i) (if n = tex_name t then i else destIndex)"

text \<open>
  \<^verbatim>\<open>kuhl_geometry_texture\<close> on the node itself, after the recursive call on the rest of
  the list. \<^verbatim>\<open>MAX_TEXTURES\<close> and the option bit \<^verbatim>\<open>KG_WARN\<close> are parameters, for the same
  reason as \<^verbatim>\<open>MAX_ATTRIBUTES\<close>.
\<close>

definition texture_store ::
  "nat \<Rightarrow> bool \<Rightarrow> gl_state \<Rightarrow> kuhl_geometry \<Rightarrow> nat \<Rightarrow> string \<Rightarrow>
   error + kuhl_geometry \<times> gl_state" where
  "texture_store MAX_TEXTURES warn s geom texture n =
     (if \<not> glIsVertexArray s (vao geom) then Inr (geom, msg Warning_texture_argument s)
      else if glGetUniformLocation s (program geom) n = -1 then
        Inr (geom, if warn then msg (Warning_sampler_missing n (program geom)) s else s)
      else if texture_count geom > length (textures geom) then Inl Memory_fault
      else
        let destIndex = texture_dest n (take (texture_count geom) (textures geom)) 0
                          (texture_count geom);
            g1 = (if destIndex = texture_count geom
                  then geom\<lparr>texture_count := texture_count geom + 1\<rparr> else geom)
        in if destIndex = MAX_TEXTURES then Inl Exit_failure
           else if destIndex \<ge> length (textures geom) then Inl Memory_fault
           else Inr (g1\<lparr>textures := (textures g1)[destIndex :=
                                        \<lparr>tex_name = n, textureId = texture\<rparr>]\<rparr>, s))"

text \<open>
  \<^verbatim>\<open>kuhl_geometry_texture\<close>. The option word is read through its two bits:
  \<open>full_list\<close> is \<^verbatim>\<open>kg_options & KG_FULL_LIST\<close> and \<open>warn\<close> is \<^verbatim>\<open>kg_options & KG_WARN\<close>.
\<close>

fun kuhl_geometry_texture ::
  "nat \<Rightarrow> bool \<Rightarrow> bool \<Rightarrow> string option \<Rightarrow> nat \<Rightarrow> kuhl_geometry list \<Rightarrow> gl_state \<Rightarrow>
   error + kuhl_geometry list \<times> gl_state" where
  "kuhl_geometry_texture MAX_TEXTURES full_list warn name' texture [] s =
     Inr ([], msg Warning_texture_argument s)"
| "kuhl_geometry_texture MAX_TEXTURES full_list warn name' texture (geom # next) s =
     (if name' = None \<or> name' = Some [] then Inr (geom # next, msg Warning_texture_argument s)
      else if texture = 0 then Inr (geom # next, msg Warning_texture_argument s)
      else if \<not> glIsTexture s texture then Inr (geom # next, msg Warning_texture_argument s)
      else
        (case (if full_list \<and> next \<noteq> []
               then kuhl_geometry_texture MAX_TEXTURES full_list warn name' texture next s
               else Inr (next, s)) of
           Inl e \<Rightarrow> Inl e
         | Inr (next', s1) \<Rightarrow>
             (case texture_store MAX_TEXTURES warn s1 geom texture (the name') of
                Inl e \<Rightarrow> Inl e
              | Inr (geom', s2) \<Rightarrow> Inr (geom' # next', s2))))"

section \<open>Creating a geometry and attaching indices\<close>

text \<open>
  \<^verbatim>\<open>kuhl_geometry_new\<close> fills in the struct it is given; the attribute and texture
  arrays keep whatever they held.
\<close>

definition kuhl_geometry_new ::
  "gl_state \<Rightarrow> kuhl_geometry \<Rightarrow> nat \<Rightarrow> nat \<Rightarrow> int \<Rightarrow> error + kuhl_geometry \<times> gl_state" where
  "kuhl_geometry_new s geom program' vertexCount primitive_type' =
     (let v = glGenVertexArrays s;
          s1 = glBindVertexArray 0 (glBindVertexArray v s)
      in if \<not> glIsProgram s1 program' then Inl Exit_failure
         else
           let s2 = (if vertexCount = 0 then msg Warning_zero_vertices s1 else s1)
           in Inr (geom\<lparr>vao := v, program := program', vertex_count := vertexCount,
                        primitive_type := primitive_type',
                        attrib_count := 0, texture_count := 0,
                        indices := None, indices_len := 0, indices_bufferobject := 0,
                        matrix := mat4f_identity, has_been_drawn := False,
                        assimp_node := None, assimp_scene := None, bones := None\<rparr>, s2))"

text \<open>
  \<^verbatim>\<open>kuhl_geometry_indices\<close>. The array \<^verbatim>\<open>indices\<close> is a list and \<^verbatim>\<open>indexCount\<close> the
  number of elements that the function reads from it; reading more than the array holds
  is a memory fault. One report is printed for each index that is not below
  \<^verbatim>\<open>vertex_count\<close>.
\<close>

definition index_reports :: "nat \<Rightarrow> nat list \<Rightarrow> message list" where
  "index_reports vertexCount idx =
     map (\<lambda>i. Report_index_out_of_range vertexCount i (idx ! i))
         (filter (\<lambda>i. idx ! i \<ge> vertexCount) [0 ..< length idx])"

definition kuhl_geometry_indices ::
  "gl_state \<Rightarrow> kuhl_geometry \<Rightarrow> nat list option \<Rightarrow> nat \<Rightarrow> error + kuhl_geometry \<times> gl_state" where
  "kuhl_geometry_indices s geom indices' indexCount =
     (if indexCount = 0 \<or> indices' = None then Inr (geom, msg Warning_indices_empty s)
      else if primitive_type geom = GL_TRIANGLES \<and> indexCount mod 3 \<noteq> 0 then Inl Exit_failure
      else if primitive_type geom = GL_LINES \<and> indexCount mod 2 \<noteq> 0 then Inl Exit_failure
      else if length (the indices') < indexCount then Inl Memory_fault
      else
        let g1 = geom\<lparr>indices_len := indexCount, indices := indices'\<rparr>;
            s1 = s\<lparr>messages := messages s @
                     index_reports (vertex_count g1) (take indexCount (the indices'))\<rparr>;
            s2 = glBindVertexArray (vao g1) s1;
            b = glGenBuffers s2;
            g2 = g1\<lparr>indices_bufferobject := b\<rparr>;
            s3 = glBindBuffer_ELEMENT_ARRAY b s2;
            s4 = glBufferData_ELEMENT_ARRAY (take indexCount (the indices')) s3
        in Inr (g2, glBindVertexArray 0 s4))"


section \<open>Drawing\<close>

definition glUnmapBuffer_ARRAY :: "gl_state \<Rightarrow> gl_state" where
  "glUnmapBuffer_ARRAY s =
     issue (UnmapBuffer (array_buffer_binding s))
       (s\<lparr>mapped_buffers := removeAll (array_buffer_binding s) (mapped_buffers s)\<rparr>)"

text \<open>
  The first loop of \<^verbatim>\<open>kuhl_geometry_draw\<close>: texture \<open>i\<close> of the node goes to texture unit
  \<open>i\<close> when it is a texture and the program has its sampler.
\<close>

fun draw_bind_textures ::
  "nat \<Rightarrow> nat \<Rightarrow> kuhl_texture list \<Rightarrow> bool \<times> gl_state \<Rightarrow> bool \<times> gl_state" where
  "draw_bind_textures prog i [] (hasTex, s) = (hasTex, s)"
| "draw_bind_textures prog i (tex # ts) (hasTex, s) =
     (if \<not> glIsTexture s (textureId tex) then draw_bind_textures prog (Suc i) ts (hasTex, s)
      else
        let loc = glGetUniformLocation s prog (tex_name tex)
        in if loc = -1 then draw_bind_textures prog (Suc i) ts (hasTex, s)
           else draw_bind_textures prog (Suc i) ts
                  (hasTex \<or> tex_name tex = ''tex'',
                   glBindTexture_2D (textureId tex)
                     (glActiveTexture (GL_TEXTURE0 + i) (issue (Uniform1i loc (int i)) s))))"

text \<open>The loop that unmaps the attribute buffers left mapped.\<close>

fun draw_unmap_attribs :: "kuhl_attrib list \<Rightarrow> gl_state \<Rightarrow> gl_state" where
  "draw_unmap_attribs [] s = s"
| "draw_unmap_attribs (a # as) s =
     (let s1 = glBindBuffer_ARRAY (bufferobject a) s;
          s2 = (if array_buffer_binding s1 \<in> set (mapped_buffers s1)
                then glUnmapBuffer_ARRAY s1 else s1)
      in draw_unmap_attribs as (glBindBuffer_ARRAY 0 s2))"

text \<open>The loop that unbinds the texture of every unit below \<^verbatim>\<open>texture_count\<close>.\<close>

definition draw_unbind_textures :: "nat \<Rightarrow> gl_state \<Rightarrow> gl_state" where
  "draw_unbind_textures n s =
     fold (\<lambda>i s. glBindTexture_2D 0 (glActiveTexture (GL_TEXTURE0 + i) s)) [0 ..< n] s"

text \<open>
  The body of \<^verbatim>\<open>kuhl_geometry_draw\<close> for one node, from \<^verbatim>\<open>glUseProgram\<close> to the draw
  call. \<^verbatim>\<open>MAX_BONES\<close> is a parameter.
\<close>

definition draw_node_calls :: "nat \<Rightarrow> kuhl_geometry \<Rightarrow> gl_state \<Rightarrow> gl_state" where
  "draw_node_calls MAX_BONES geom s =
     (let s1 = glUseProgram (program geom) s;
          bound = draw_bind_textures (program geom) 0
                    (take (texture_count geom) (textures geom)) (False, s1);
          hasTex = fst bound;
          s2 = snd bound;
          loc1 = glGetUniformLocation s2 (program geom) ''HasTex'';
          s3 = (if loc1 \<noteq> -1 then issue (Uniform1i loc1 (if hasTex then 1 else 0)) s2 else s2);
          loc2 = glGetUniformLocation s3 (program geom) ''BoneMat'';
          s4 = (if loc2 \<noteq> -1 \<and> bones geom \<noteq> None
                then issue (UniformMatrix4fv loc2 MAX_BONES (matrices (the (bones geom)))) s3
                else s3);
          numBones = (if loc2 \<noteq> -1 \<and> bones geom \<noteq> None
                      then int (count (the (bones geom))) else 0);
          loc3 = glGetUniformLocation s4 (program geom) ''NumBones'';
          s5 = (if loc3 \<noteq> -1 then issue (Uniform1i loc3 numBones) s4 else s4);
          loc4 = glGetUniformLocation s5 (program geom) ''GeomTransform'';
          s6 = (if loc4 \<noteq> -1 then issue (UniformMatrix4fv loc4 1 [matrix geom]) s5
                else if sum_list (map2 (\<lambda>a b. \<bar>a - b\<bar>) mat4f_identity (matrix geom)) > 1 / 100000
                        \<and> \<not> has_been_drawn geom
                then msg (Error_missing_GeomTransform (program geom)) s5
                else s5);
          s7 = glBindVertexArray (vao geom) s6;
          s8 = draw_unmap_attribs (take (attrib_count geom) (attribs geom)) s7
      in if indices_len geom > 0 \<and> glIsBuffer s8 (indices_bufferobject geom)
         then issue (DrawElements (primitive_type geom) (indices_len geom)) s8
         else issue (DrawArrays (primitive_type geom) 0 (vertex_count geom)) s8)"

text \<open>
  The body of \<^verbatim>\<open>kuhl_geometry_draw\<close> for one node up to the assignment of
  \<^verbatim>\<open>has_been_drawn\<close>: the calls above, and the loop that unbinds the textures. Reading
  a texture or an attribute behind its array is a memory fault.
\<close>

definition draw_node :: "nat \<Rightarrow> kuhl_geometry \<Rightarrow> gl_state \<Rightarrow> error + kuhl_geometry \<times> gl_state" where
  "draw_node MAX_BONES geom s =
     (if texture_count geom > length (textures geom) then Inl Memory_fault
      else if attrib_count geom > length (attribs geom) then Inl Memory_fault
      else Inr (geom\<lparr>has_been_drawn := True\<rparr>,
                draw_unbind_textures (texture_count geom) (draw_node_calls MAX_BONES geom s)))"

text \<open>
  \<^verbatim>\<open>kuhl_geometry_draw\<close>: the state is recorded, the node is drawn, the four recorded
  values are written back, and the rest of the list is drawn. A node whose program or
  vertex array object is invalid ends the call, and the rest of the list is not drawn.
\<close>

fun kuhl_geometry_draw ::
  "nat \<Rightarrow> kuhl_geometry list \<Rightarrow> gl_state \<Rightarrow> error + kuhl_geometry list \<times> gl_state" where
  "kuhl_geometry_draw MAX_BONES [] s = Inr ([], s)"
| "kuhl_geometry_draw MAX_BONES (geom # next) s =
     (let previouslyUsedProgram = current_program s;
          previouslyBoundTexture = texture_binding_2d s (active_texture s);
          previouslyActiveTexture = active_texture s;
          previousVAO = vertex_array_binding s
      in if \<not> glIsProgram s (program geom) \<or> \<not> glIsVertexArray s (vao geom) then
           Inr (geom # next, msg (Error_invalid_program_or_vao (program geom) (vao geom)) s)
         else
           (case draw_node MAX_BONES geom s of
              Inl e \<Rightarrow> Inl e
            | Inr (geom', s1) \<Rightarrow>
                let s2 = glActiveTexture previouslyActiveTexture s1;
                    s3 = glBindTexture_2D previouslyBoundTexture s2;
                    s4 = glUseProgram previouslyUsedProgram s3;
                    s5 = glBindVertexArray previousVAO s4
                in (case kuhl_geometry_draw MAX_BONES next s5 of
                      Inl e \<Rightarrow> Inl e
                    | Inr (next', s6) \<Rightarrow> Inr (geom' # next', s6))))"

section \<open>Deleting\<close>

text \<open>
  The loop over the attribute slots of \<^verbatim>\<open>kuhl_geometry_delete\<close>: the name is freed and
  set to null, the buffer is deleted when it is one, and the handle is set to 0.
\<close>

fun delete_attribs :: "kuhl_attrib list \<Rightarrow> gl_state \<Rightarrow> kuhl_attrib list \<times> gl_state" where
  "delete_attribs [] s = ([], s)"
| "delete_attribs (a # as) s =
     (let s1 = (if glIsBuffer s (bufferobject a) then glDeleteBuffers (bufferobject a) s else s);
          r = delete_attribs as s1
      in (a\<lparr>name := None, bufferobject := 0\<rparr> # fst r, snd r))"

text \<open>
  The part of \<^verbatim>\<open>kuhl_geometry_delete\<close> after its \<^verbatim>\<open>while\<close> loop. Reading
  \<^verbatim>\<open>attribs[i]\<close> for \<^verbatim>\<open>i < attrib_count\<close> beyond the array is a memory fault.
\<close>

definition delete_node :: "kuhl_geometry \<Rightarrow> gl_state \<Rightarrow> error + kuhl_geometry \<times> gl_state" where
  "delete_node geom s =
     (if attrib_count geom > length (attribs geom) then Inl Memory_fault
      else
        let r = delete_attribs (take (attrib_count geom) (attribs geom)) s;
            s1 = snd r;
            g1 = geom\<lparr>attribs := fst r @ drop (attrib_count geom) (attribs geom),
                      attrib_count := 0\<rparr>;
            s2 = (if glIsBuffer s1 (indices_bufferobject g1)
                  then glDeleteBuffers (indices_bufferobject g1) s1 else s1);
            g2 = g1\<lparr>indices_bufferobject := 0, indices_len := 0\<rparr>;
            s3 = (if glIsVertexArray s2 (vao g2) then glDeleteVertexArrays (vao g2) s2 else s2)
        in Inr (g2\<lparr>vao := 0, has_been_drawn := False\<rparr>, s3))"

text \<open>
  \<^verbatim>\<open>kuhl_geometry_delete\<close>:
  \<^verbatim>\<open>while(geom->next != NULL) kuhl_geometry_delete(geom->next);\<close> followed by the
  release of the node itself. One turn of the loop is the recursive call on the tail
  followed by the test of the same condition again, that is, by the function itself on
  the node with its tail, which the call has released but which is still linked.
  \<open>None\<close> is a call that does not return; a null \<^verbatim>\<open>geom\<close> is dereferenced.
\<close>

partial_function (option) kuhl_geometry_delete ::
  "kuhl_geometry list \<Rightarrow> gl_state \<Rightarrow> (error + kuhl_geometry list \<times> gl_state) option" where
  "kuhl_geometry_delete geom s =
     (case geom of
        [] \<Rightarrow> Some (Inl Memory_fault)
      | g # next \<Rightarrow>
          if next \<noteq> [] then
            Option.bind (kuhl_geometry_delete next s)
              (\<lambda>r. case r of
                      Inl e \<Rightarrow> Some (Inl e)
                    | Inr (next', s') \<Rightarrow> kuhl_geometry_delete (g # next') s')
          else
            Some (case delete_node g s of
                    Inl e \<Rightarrow> Inl e
                  | Inr (g', s') \<Rightarrow> Inr ([g'], s')))"

section \<open>Bounding boxes\<close>

text \<open>
  Modelled from the spec: \<^verbatim>\<open>mat4f_mult_vec4f_new\<close> of \<^verbatim>\<open>vecmat.c\<close>, which is not part of
  the sources, is the product of a 4x4 matrix with a 4-vector of the linear-algebra
  library that the spec assumes. The matrix is stored column by column.
\<close>

definition mat4f_mult_vec4f_new :: "real list \<Rightarrow> real list \<Rightarrow> real list" where
  "mat4f_mult_vec4f_new m v =
     map (\<lambda>i. m ! i * v ! 0 + m ! (i + 4) * v ! 1 + m ! (i + 8) * v ! 2 + m ! (i + 12) * v ! 3)
         [0 ..< 4]"

text \<open>
  The array \<^verbatim>\<open>float coords[8][3]\<close> of \<^verbatim>\<open>kuhl_bbox_transform\<close> is the list of its 24
  floats, row after row. Its initialiser has seven rows, so the eighth row is zero.
  The loop hands \<^verbatim>\<open>coords[i]\<close> to the product as a vector of four floats: the fourth
  one is the first float of the next row and, for the last row, the float that lies
  behind the array, which is the 25th element of the list here (\<open>behind\<close>).
\<close>

definition bbox_coords :: "real list \<Rightarrow> real \<Rightarrow> real list" where
  "bbox_coords bbox behind =
     (let xmin = 0; xmax = 1; ymin = 2; ymax = 3; zmin = 4; zmax = 5
      in [bbox ! xmin, bbox ! ymin, bbox ! zmin,
          bbox ! xmin, bbox ! ymin, bbox ! zmax,
          bbox ! xmin, bbox ! ymax, bbox ! zmin,
          bbox ! xmin, bbox ! ymax, bbox ! zmax,
          bbox ! xmax, bbox ! ymin, bbox ! zmax,
          bbox ! xmax, bbox ! ymax, bbox ! zmin,
          bbox ! xmax, bbox ! ymax, bbox ! zmax,
          0, 0, 0,
          behind])"

definition bbox_transform_row ::
  "(real list \<Rightarrow> real list \<Rightarrow> real list) \<Rightarrow> real list \<Rightarrow> nat \<Rightarrow> real list \<Rightarrow> real list" where
  "bbox_transform_row mult mat i coords =
     (let r = mult mat [coords ! (3 * i), coords ! (3 * i + 1), coords ! (3 * i + 2),
                        coords ! (3 * i + 3)]
      in coords[3 * i := r ! 0, 3 * i + 1 := r ! 1, 3 * i + 2 := r ! 2, 3 * i + 3 := r ! 3])"

definition bbox_fold_row :: "real list \<Rightarrow> nat \<Rightarrow> real list \<Rightarrow> real list" where
  "bbox_fold_row coords i bbox =
     (let b0 = (if coords ! (3 * i) < bbox ! 0 then bbox[0 := coords ! (3 * i)] else bbox);
          b1 = (if coords ! (3 * i + 1) < b0 ! 2 then b0[2 := coords ! (3 * i + 1)] else b0);
          b2 = (if coords ! (3 * i + 2) < b1 ! 4 then b1[4 := coords ! (3 * i + 2)] else b1);
          b3 = (if coords ! (3 * i) > b2 ! 1 then b2[1 := coords ! (3 * i)] else b2);
          b4 = (if coords ! (3 * i + 1) > b3 ! 3 then b3[3 := coords ! (3 * i + 1)] else b3)
      in if coords ! (3 * i + 2) > b4 ! 5 then b4[5 := coords ! (3 * i + 2)] else b4)"

definition kuhl_bbox_transform ::
  "(real list \<Rightarrow> real list \<Rightarrow> real list) \<Rightarrow> real \<Rightarrow> real list \<Rightarrow> real list option \<Rightarrow> real list" where
  "kuhl_bbox_transform mult behind bbox mat =
     (case mat of
        None \<Rightarrow> bbox
      | Some m \<Rightarrow>
          let coords = fold (bbox_transform_row mult m) [0 ..< 8] (bbox_coords bbox behind);
              bbox1 = bbox[0 := FLT_MAX, 2 := FLT_MAX, 4 := FLT_MAX];
              bbox2 = bbox1[1 := - FLT_MAX, 3 := - FLT_MAX, 5 := - FLT_MAX]
          in fold (bbox_fold_row coords) [0 ..< 8] bbox2)"


section \<open>Bone weights of an imported mesh\<close>

text \<open>
  The block of \<^verbatim>\<open>kuhl_private_load_model\<close> that fills the arrays \<^verbatim>\<open>indices\<close> and
  \<^verbatim>\<open>weights\<close>, both of \<^verbatim>\<open>mNumVertices * 4\<close> floats, which are then handed to
  \<^verbatim>\<open>kuhl_geometry_attrib\<close> as \<^verbatim>\<open>in_BoneIndex\<close> and \<^verbatim>\<open>in_BoneWeight\<close>. A weight of a
  bone is the pair of its \<^verbatim>\<open>mVertexId\<close> and its \<^verbatim>\<open>mWeight\<close>. The state of the loops is
  the two arrays and \<^verbatim>\<open>count\<close>. A write behind the end of an array is a memory fault.
\<close>

type_synonym bone_arrays = "real list \<times> real list \<times> nat"

fun scan_weights :: "nat \<Rightarrow> nat \<Rightarrow> (nat \<times> real) list \<Rightarrow> bone_arrays \<Rightarrow> error + bone_arrays" where
  "scan_weights i j [] st = Inr st"
| "scan_weights i j ((idx, wght) # ws) (ind, wts, cnt) =
     (if idx = i then
        (if i * 4 + cnt < length ind \<and> i * 4 + cnt < length wts
         then scan_weights i j ws (ind[i * 4 + cnt := real j], wts[i * 4 + cnt := wght], cnt + 1)
         else Inl Memory_fault)
      else scan_weights i j ws (ind, wts, cnt))"

fun scan_bones :: "nat \<Rightarrow> nat \<Rightarrow> aiBone list \<Rightarrow> bone_arrays \<Rightarrow> error + bone_arrays" where
  "scan_bones i j [] st = Inr st"
| "scan_bones i j (b # bs) st =
     (case scan_weights i j (mWeights b) st of
        Inl e \<Rightarrow> Inl e
      | Inr st' \<Rightarrow> scan_bones i (Suc j) bs st')"

definition zero_weights :: "nat \<Rightarrow> real list \<Rightarrow> real list" where
  "zero_weights i xs = fold (\<lambda>j xs. xs[i * 4 + j := 0]) [0 ..< 4] xs"

fun fill_vertices ::
  "aiBone list \<Rightarrow> nat list \<Rightarrow> real list \<times> real list \<Rightarrow> error + real list \<times> real list" where
  "fill_vertices bs [] (ind, wts) = Inr (ind, wts)"
| "fill_vertices bs (i # is) (ind, wts) =
     (case scan_bones i 0 bs (zero_weights i ind, zero_weights i wts, 0) of
        Inl e \<Rightarrow> Inl e
      | Inr (ind', wts', cnt) \<Rightarrow> fill_vertices bs is (ind', wts'))"

text \<open>
  \<open>junk\<close> is what the freshly allocated arrays hold. The result is \<open>None\<close> for a mesh
  without bones, for which the block does not run.
\<close>

definition load_model_bone_attribs ::
  "nat \<Rightarrow> real \<Rightarrow> aiMesh \<Rightarrow> error + (real list \<times> real list) option" where
  "load_model_bone_attribs MAX_BONES junk mesh' =
     (if mBones mesh' \<noteq> [] then
        (if length (mBones mesh') > MAX_BONES then Inl Exit_failure
         else
           (case fill_vertices (mBones mesh') [0 ..< mNumVertices mesh']
                   (replicate (mNumVertices mesh' * 4) junk,
                    replicate (mNumVertices mesh' * 4) junk) of
              Inl e \<Rightarrow> Inl e
            | Inr (ind, wts) \<Rightarrow>
                if \<exists>i \<in> set [0 ..< mNumVertices mesh']. wts ! (i * 4 + 0) = 0
                then Inl Exit_failure
                else Inr (Some (ind, wts))))
      else Inr None)"






section \<open>Keyframe animation\<close>

text \<open>
  The three parts of \<^verbatim>\<open>kuhl_private_anim_matrix\<close>, for the position, rotation and
  scaling keys, run the same code on their key array. \<open>key_start\<close> is the loop: the
  first \<open>j\<close> below the number of keys minus one with \<^verbatim>\<open>ticks < keys[j+1].mTime\<close>, and the
  initial value 0 of the variable when the loop ends without \<^verbatim>\<open>break\<close>.
\<close>

definition key_start :: "real \<Rightarrow> aiKey list \<Rightarrow> nat" where
  "key_start ticks keys =
     (case find (\<lambda>j. ticks < mTime (keys ! (j + 1))) [0 ..< length keys - 1] of
        None \<Rightarrow> 0
      | Some j \<Rightarrow> j)"

definition key_end :: "aiKey list \<Rightarrow> nat \<Rightarrow> nat" where
  "key_end keys start = (if start + 1 \<ge> length keys then start else start + 1)"

definition key_factor :: "real \<Rightarrow> aiKey list \<Rightarrow> nat \<Rightarrow> nat \<Rightarrow> real" where
  "key_factor ticks keys start end' =
     (let deltaTime = mTime (keys ! end') - mTime (keys ! start)
      in if deltaTime \<noteq> 0 then (ticks - mTime (keys ! start)) / deltaTime else 0)"

text \<open>
  Modelled from the spec: \<^verbatim>\<open>vec3f_scalarMult\<close> and \<^verbatim>\<open>vec3f_add_new\<close> of \<^verbatim>\<open>vecmat.c\<close>,
  which is not part of the sources; position and scale are interpolated linearly per
  component.
\<close>

definition vec3f_scalarMult :: "real list \<Rightarrow> real \<Rightarrow> real list" where
  "vec3f_scalarMult v k = map (\<lambda>x. x * k) v"

definition vec3f_add_new :: "real list \<Rightarrow> real list \<Rightarrow> real list" where
  "vec3f_add_new a b = map2 (+) a b"

definition key_lerp :: "real \<Rightarrow> aiKey list \<Rightarrow> real list" where
  "key_lerp ticks keys =
     (let start = key_start ticks keys;
          end' = key_end keys start;
          factor = key_factor ticks keys start end'
      in vec3f_add_new (vec3f_scalarMult (mValue (keys ! start)) (1 - factor))
                       (vec3f_scalarMult (mValue (keys ! end')) factor))"

definition key_slerp :: "vecmat \<Rightarrow> real \<Rightarrow> aiKey list \<Rightarrow> real list" where
  "key_slerp vm ticks keys =
     (let start = key_start ticks keys;
          end' = key_end keys start;
          factor = key_factor ticks keys start end'
      in quatf_slerp_new vm (mValue (keys ! start)) (mValue (keys ! end')) factor)"

text \<open>
  \<^verbatim>\<open>kuhl_private_anim_matrix\<close>. With no key in an array the unsigned loop bound
  wraps around and \<^verbatim>\<open>keys[1]\<close> is read: a memory fault.
\<close>

definition kuhl_private_anim_matrix :: "vecmat \<Rightarrow> aiNodeAnim \<Rightarrow> real \<Rightarrow> error + real list" where
  "kuhl_private_anim_matrix vm na ticks =
     (if mPositionKeys na = [] \<or> mRotationKeys na = [] \<or> mScalingKeys na = []
      then Inl Memory_fault
      else
        let positionMatrix = mat4f_translateVec_new vm (key_lerp ticks (mPositionKeys na));
            rotationMatrix = mat4f_rotateQuatVec_new vm (key_slerp vm ticks (mRotationKeys na));
            scalingMatrix = mat4f_scaleVec_new vm (key_lerp ticks (mScalingKeys na))
        in Inr (mat4f_mult_mat4f_new vm
                  (mat4f_mult_mat4f_new vm positionMatrix rotationMatrix) scalingMatrix))"

text \<open>
  \<^verbatim>\<open>kuhl_private_node_matrix\<close>: the matrix and the returned flag, which is 1 when the
  matrix comes from the animation and 0 when it is the one stored in the node.

  The tick \<^verbatim>\<open>double currentTick = t * anim->mTicksPerSecond\<close> is a product of doubles: the
  machine rounds it to a double before it compares it with the duration. The numbers of the
  model are reals, which are not rounded, so the product as the machine computes it is the
  parameter \<open>mult_double\<close>.
\<close>

definition kuhl_private_node_matrix ::
  "vecmat \<Rightarrow> (real \<Rightarrow> real \<Rightarrow> real) \<Rightarrow> aiScene \<Rightarrow> aiNode \<Rightarrow> nat \<Rightarrow> real \<Rightarrow>
   error + real list \<times> int" where
  "kuhl_private_node_matrix vm mult_double scene node animationNum t =
     (let transformResult = mTransformation node
      in if animationNum \<ge> length (mAnimations scene) \<or> t < 0 then Inr (transformResult, 0)
         else
           let anim = mAnimations scene ! animationNum;
               currentTick = mult_double t (mTicksPerSecond anim)
           in if currentTick > mDuration anim then Inr (transformResult, 0)
              else
                (case find (\<lambda>na. mNodeName na = mName node) (mChannels anim) of
                   None \<Rightarrow> Inr (transformResult, 0)
                 | Some na \<Rightarrow>
                     (case kuhl_private_anim_matrix vm na currentTick of
                        Inl e \<Rightarrow> Inl e
                      | Inr m \<Rightarrow> Inr (m, 1))))"

section \<open>Updating a model for a time of its animation\<close>

text \<open>
  The \<^verbatim>\<open>do ... while(node != NULL)\<close> loop of \<^verbatim>\<open>kuhl_update_model\<close>, which multiplies the
  matrices of a node and of its ancestors. \<open>None\<close> is a loop that does not end, as on
  parent links that form a cycle.
\<close>

partial_function (option) compose_ancestors ::
  "vecmat \<Rightarrow> (real \<Rightarrow> real \<Rightarrow> real) \<Rightarrow> aiScene \<Rightarrow> nat \<Rightarrow> real \<Rightarrow> nat \<Rightarrow> real list \<Rightarrow>
   (error + real list) option" where
  "compose_ancestors vm mult_double scene animationNum t node m =
     (case nodes scene node of
        None \<Rightarrow> Some (Inl Memory_fault)
      | Some nd \<Rightarrow>
          (case kuhl_private_node_matrix vm mult_double scene nd animationNum t of
             Inl e \<Rightarrow> Some (Inl e)
           | Inr (transform, applied) \<Rightarrow>
               (case mParent nd of
                  None \<Rightarrow> Some (Inr (mat4f_mult_mat4f_new vm transform m))
                | Some p \<Rightarrow>
                    compose_ancestors vm mult_double scene animationNum t p
                      (mat4f_mult_mat4f_new vm transform m))))"

text \<open>
  \<^verbatim>\<open>kuhl_assimp_find_node\<close>. The argument \<open>Inl node\<close> is the call on a node, and
  \<open>Inr children\<close> is its loop over the children that are left.
\<close>

partial_function (option) find_node_walk ::
  "aiScene \<Rightarrow> string \<Rightarrow> nat + nat list \<Rightarrow> (error + nat option) option" where
  "find_node_walk scene nodeName pos =
     (case pos of
        Inl node \<Rightarrow>
          (case nodes scene node of
             None \<Rightarrow> Some (Inl Memory_fault)
           | Some nd \<Rightarrow>
               if mName nd = nodeName then Some (Inr (Some node))
               else find_node_walk scene nodeName (Inr (mChildren nd)))
      | Inr [] \<Rightarrow> Some (Inr None)
      | Inr (child # children) \<Rightarrow>
          Option.bind (find_node_walk scene nodeName (Inl child))
            (\<lambda>r. case r of
                    Inl e \<Rightarrow> Some (Inl e)
                  | Inr (Some foundNode) \<Rightarrow> Some (Inr (Some foundNode))
                  | Inr None \<Rightarrow> find_node_walk scene nodeName (Inr children)))"

definition kuhl_assimp_find_node :: "aiScene \<Rightarrow> string \<Rightarrow> nat \<Rightarrow> (error + nat option) option" where
  "kuhl_assimp_find_node scene nodeName node = find_node_walk scene nodeName (Inl node)"

text \<open>The loop of \<^verbatim>\<open>kuhl_update_model\<close> over the bones \<open>b\<close> of a node.\<close>

fun update_bones ::
  "vecmat \<Rightarrow> (real \<Rightarrow> real \<Rightarrow> real) \<Rightarrow> aiScene \<Rightarrow> nat \<Rightarrow> real \<Rightarrow> nat list \<Rightarrow> kuhl_bonemat \<Rightarrow>
   (error + kuhl_bonemat) option" where
  "update_bones vm mult_double scene animationNum t [] bm = Some (Inr bm)"
| "update_bones vm mult_double scene animationNum t (b # bs) bm =
     (if b \<ge> length (boneList bm) \<or> b \<ge> length (matrices bm) then Some (Inl Memory_fault)
      else
        Option.bind (kuhl_assimp_find_node scene (bone_name (boneList bm ! b)) (mRootNode scene))
          (\<lambda>found. case found of
             Inl e \<Rightarrow> Some (Inl e)
           | Inr None \<Rightarrow> Some (Inl Exit_failure)
           | Inr (Some node) \<Rightarrow>
               Option.bind
                 (compose_ancestors vm mult_double scene animationNum t node mat4f_identity)
                 (\<lambda>r. case r of
                    Inl e \<Rightarrow> Some (Inl e)
                  | Inr m \<Rightarrow>
                      update_bones vm mult_double scene animationNum t bs
                        (bm\<lparr>matrices := (matrices bm)
                              [b := mat4f_mult_mat4f_new vm m (mOffsetMatrix (boneList bm ! b))]\<rparr>))))"

text \<open>The body of the loop of \<^verbatim>\<open>kuhl_update_model\<close> over the nodes of the list.\<close>

definition update_node ::
  "vecmat \<Rightarrow> (real \<Rightarrow> real \<Rightarrow> real) \<Rightarrow> nat \<Rightarrow> real \<Rightarrow> kuhl_geometry \<Rightarrow>
   (error + kuhl_geometry) option" where
  "update_node vm mult_double animationNum t g =
     (if assimp_scene g = None \<or> mAnimations (the (assimp_scene g)) = [] \<or> assimp_node g = None
      then Some (Inr g)
      else if bones g = None then
        Option.bind (compose_ancestors vm mult_double (the (assimp_scene g)) animationNum t
                       (the (assimp_node g)) mat4f_identity)
          (\<lambda>r. case r of
             Inl e \<Rightarrow> Some (Inl e)
           | Inr m \<Rightarrow> Some (Inr (g\<lparr>matrix := m\<rparr>)))
      else
        Option.bind (update_bones vm mult_double (the (assimp_scene g)) animationNum t
                       [0 ..< count (the (bones g))] (the (bones g)))
          (\<lambda>r. case r of
             Inl e \<Rightarrow> Some (Inl e)
           | Inr bm \<Rightarrow> Some (Inr (g\<lparr>bones := Some bm\<rparr>))))"

fun kuhl_update_model ::
  "vecmat \<Rightarrow> (real \<Rightarrow> real \<Rightarrow> real) \<Rightarrow> kuhl_geometry list \<Rightarrow> nat \<Rightarrow> real \<Rightarrow>
   (error + kuhl_geometry list) option" where
  "kuhl_update_model vm mult_double [] animationNum t = Some (Inr [])"
| "kuhl_update_model vm mult_double (g # next) animationNum t =
     Option.bind (update_node vm mult_double animationNum t g)
       (\<lambda>r. case r of
          Inl e \<Rightarrow> Some (Inl e)
        | Inr g' \<Rightarrow>
            Option.bind (kuhl_update_model vm mult_double next animationNum t)
              (\<lambda>r'. case r' of
                 Inl e \<Rightarrow> Some (Inl e)
               | Inr next' \<Rightarrow> Some (Inr (g' # next'))))"


section \<open>Example inputs\<close>

text \<open>
  A device with one program, which has the attributes \<^verbatim>\<open>in_Position\<close>, \<^verbatim>\<open>in_Normal\<close>
  and \<^verbatim>\<open>in_TexCoord\<close>, but not \<^verbatim>\<open>in_Color\<close>, and the samplers \<^verbatim>\<open>tex\<close>, \<^verbatim>\<open>tex2\<close> and
  \<^verbatim>\<open>tex3\<close>, and two nodes as \<^verbatim>\<open>kuhl_geometry_new\<close>,
  \<^verbatim>\<open>kuhl_geometry_attrib\<close> and \<^verbatim>\<open>kuhl_geometry_texture\<close> leave them, for arrays of two
  attributes and two textures. Texture 7 is bound on the second texture unit.
\<close>

definition example_device :: gl_state where
  "example_device =
     \<lparr>programs = [1], vertex_arrays = [1, 2], buffers = [1, 2], texture_objects = [5, 7],
      attrib_location = (\<lambda>p n. if n = ''in_Position'' then 0
                               else if n = ''in_Normal'' then 1
                               else if n = ''in_TexCoord'' then 2 else -1),
      uniform_location = (\<lambda>p n. if n = ''tex'' then 0
                                else if n = ''tex2'' then 1
                                else if n = ''tex3'' then 2 else -1),
      current_program = 0, active_texture = GL_TEXTURE0,
      texture_binding_2d = (\<lambda>u. if u = GL_TEXTURE0 + 1 then 7 else 0),
      vertex_array_binding = 0, array_buffer_binding = 0,
      element_array_binding = (\<lambda>v. 0), array_data = (\<lambda>b. []), element_data = (\<lambda>b. []),
      mapped_buffers = [], validate_status = (\<lambda>p. True), calls = [], messages = []\<rparr>"

definition example_node_a :: kuhl_geometry where
  "example_node_a =
     \<lparr>vao = 1, program = 1, vertex_count = 3, primitive_type = GL_TRIANGLES,
      attrib_count = 1,
      attribs = [\<lparr>name = Some ''in_Position'', bufferobject = 1\<rparr>,
                 \<lparr>name = None, bufferobject = 0\<rparr>],
      texture_count = 2,
      textures = [\<lparr>tex_name = ''tex'', textureId = 5\<rparr>, \<lparr>tex_name = ''tex2'', textureId = 7\<rparr>],
      indices = None, indices_len = 0, indices_bufferobject = 0,
      matrix = mat4f_identity, has_been_drawn = False,
      assimp_node = None, assimp_scene = None, bones = None\<rparr>"

definition example_node_b :: kuhl_geometry where
  "example_node_b =
     \<lparr>vao = 2, program = 1, vertex_count = 3, primitive_type = GL_TRIANGLES,
      attrib_count = 1,
      attribs = [\<lparr>name = Some ''in_Position'', bufferobject = 2\<rparr>,
                 \<lparr>name = None, bufferobject = 0\<rparr>],
      texture_count = 0,
      textures = [\<lparr>tex_name = [], textureId = 0\<rparr>, \<lparr>tex_name = [], textureId = 0\<rparr>],
      indices = None, indices_len = 0, indices_bufferobject = 0,
      matrix = mat4f_identity, has_been_drawn = False,
      assimp_node = None, assimp_scene = None, bones = None\<rparr>"

section \<open>Predicates of the proofs\<close>

text \<open>
  What a call of \<^verbatim>\<open>kuhl_geometry_delete\<close> that returns tells about its argument: after a
  fault, the list was empty or a node had more attributes than its array holds; after a
  normal return, the list had one node.
\<close>

definition delete_post ::
  "kuhl_geometry list \<Rightarrow> gl_state \<Rightarrow> (error + kuhl_geometry list \<times> gl_state) \<Rightarrow> bool" where
  "delete_post geom s r =
     (case r of
        Inl e \<Rightarrow> geom = [] \<or> (\<exists>g \<in> set geom. attrib_count g > length (attribs g))
      | Inr (gs, s') \<Rightarrow>
          length geom = 1 \<and> length gs = 1 \<and> (\<forall>g \<in> set gs. attrib_count g \<le> length (attribs g)))"

text \<open>
  A mesh of one vertex that five bones refer to, each with the weight 1/5. The loader
  does not hand such a mesh to the block, since the importer limits the weights of a
  vertex to 4.
\<close>

definition example_mesh_five_bones :: aiMesh where
  "example_mesh_five_bones =
     \<lparr>mNumVertices = 1,
      mBones = [\<lparr>bone_name = ''b0'', mOffsetMatrix = mat4f_identity, mWeights = [(0, 1 / 5)]\<rparr>,
                \<lparr>bone_name = ''b1'', mOffsetMatrix = mat4f_identity, mWeights = [(0, 1 / 5)]\<rparr>,
                \<lparr>bone_name = ''b2'', mOffsetMatrix = mat4f_identity, mWeights = [(0, 1 / 5)]\<rparr>,
                \<lparr>bone_name = ''b3'', mOffsetMatrix = mat4f_identity, mWeights = [(0, 1 / 5)]\<rparr>,
                \<lparr>bone_name = ''b4'', mOffsetMatrix = mat4f_identity, mWeights = [(0, 1 / 5)]\<rparr>]\<rparr>"




text \<open>
  A channel with position keys at the times 0, 1 and 2, and one rotation and one scaling
  key.
\<close>

definition example_channel :: aiNodeAnim where
  "example_channel =
     \<lparr>mNodeName = ''root'',
      mPositionKeys = [\<lparr>mTime = 0, mValue = [0, 0, 0]\<rparr>,
                       \<lparr>mTime = 1, mValue = [1, 0, 0]\<rparr>,
                       \<lparr>mTime = 2, mValue = [5, 0, 0]\<rparr>],
      mRotationKeys = [\<lparr>mTime = 0, mValue = [0, 0, 0, 1]\<rparr>],
      mScalingKeys = [\<lparr>mTime = 0, mValue = [1, 1, 1]\<rparr>]\<rparr>"

text \<open>
  A scene of a root node and one child, with one animation of two ticks, at one tick per
  second, whose only channel animates the root.
\<close>

definition example_root :: aiNode where
  "example_root =
     \<lparr>mName = ''root'', mTransformation = mat4f_identity, mParent = None, mChildren = [1]\<rparr>"

definition example_child :: aiNode where
  "example_child =
     \<lparr>mName = ''child'',
      mTransformation = [2, 0, 0, 0,  0, 2, 0, 0,  0, 0, 2, 0,  0, 0, 0, 1],
      mParent = Some 0, mChildren = []\<rparr>"

definition example_scene :: aiScene where
  "example_scene =
     \<lparr>mAnimations = [\<lparr>mDuration = 2, mTicksPerSecond = 1, mChannels = [example_channel]\<rparr>],
      mRootNode = 0,
      nodes = (\<lambda>a. if a = 0 then Some example_root
                    else if a = 1 then Some example_child else None)\<rparr>"

text \<open>
  The times of the examples are \<open>-1\<close>, \<open>1 / 2\<close> and \<open>3\<close> and the rate of the example
  animation is 1: their products are doubles, which the machine does not round. On the
  examples the product of the machine is therefore the product.
\<close>

definition example_mult_double :: "real \<Rightarrow> real \<Rightarrow> real" where
  "example_mult_double a b = a * b"

text \<open>The second example node as the importer leaves it for a mesh of the child.\<close>

definition example_node_c :: kuhl_geometry where
  "example_node_c = example_node_b\<lparr>assimp_node := Some 1, assimp_scene := Some example_scene\<rparr>"

text \<open>
  The test of \<^verbatim>\<open>kuhl_update_model\<close> under which it leaves a node alone: no scene, a scene
  without animations, or no scene node.
\<close>

definition not_animated :: "kuhl_geometry \<Rightarrow> bool" where
  "not_animated g \<longleftrightarrow>
     assimp_scene g = None \<or> mAnimations (the (assimp_scene g)) = [] \<or> assimp_node g = None"

text \<open>
  The bindings that \<^verbatim>\<open>kuhl_geometry_draw\<close> records on entry and writes back: the program
  in use, the active texture unit, the 2D texture bound on that unit, and the bound
  vertex array object.
\<close>

definition recorded_bindings :: "gl_state \<Rightarrow> nat \<times> nat \<times> nat \<times> nat" where
  "recorded_bindings s =
     (current_program s, active_texture s, texture_binding_2d s (active_texture s),
      vertex_array_binding s)"

text \<open>
  The example device when the caller has objects of its own in use: program 3, the
  vertex array object 4, texture 7 on the first texture unit, which is the active one,
  and texture 5 on the third unit. The example nodes use program 1, the vertex array
  objects 1 and 2 and the first two texture units.
\<close>

definition example_device_in_use :: gl_state where
  "example_device_in_use =
     example_device\<lparr>programs := [1, 3], vertex_arrays := [1, 2, 4], current_program := 3,
                    texture_binding_2d := (\<lambda>u. if u = GL_TEXTURE0 then 7
                                               else if u = GL_TEXTURE0 + 2 then 5 else 0),
                    vertex_array_binding := 4\<rparr>"

text \<open>
  A node that \<^verbatim>\<open>kuhl_geometry_draw\<close> draws: its program and its vertex array object are
  objects of the device, and its counts are within its arrays.
\<close>

definition drawable :: "gl_state \<Rightarrow> kuhl_geometry \<Rightarrow> bool" where
  "drawable s g \<longleftrightarrow>
     glIsProgram s (program g) \<and> glIsVertexArray s (vao g) \<and>
     texture_count g \<le> length (textures g) \<and> attrib_count g \<le> length (attribs g)"

text \<open>
  The arrays \<^verbatim>\<open>attribs\<close> and \<^verbatim>\<open>textures\<close> of a node have the declared sizes
  \<^verbatim>\<open>MAX_ATTRIBUTES\<close> and \<^verbatim>\<open>MAX_TEXTURES\<close>, and the counts do not exceed them.
\<close>

definition attrib_capacity_ok :: "nat \<Rightarrow> kuhl_geometry \<Rightarrow> bool" where
  "attrib_capacity_ok MAX_ATTRIBUTES g \<longleftrightarrow>
     length (attribs g) = MAX_ATTRIBUTES \<and> attrib_count g \<le> MAX_ATTRIBUTES"

definition texture_capacity_ok :: "nat \<Rightarrow> kuhl_geometry \<Rightarrow> bool" where
  "texture_capacity_ok MAX_TEXTURES g \<longleftrightarrow>
     length (textures g) = MAX_TEXTURES \<and> texture_count g \<le> MAX_TEXTURES"

text \<open>
  The names of the attributes and of the textures that a node holds: those of the slots in
  use, which are the first \<^verbatim>\<open>attrib_count\<close> and \<^verbatim>\<open>texture_count\<close> ones. The name of an
  attribute slot is a pointer, which may be null.
\<close>

definition attrib_names :: "kuhl_geometry \<Rightarrow> string option list" where
  "attrib_names g = map name (take (attrib_count g) (attribs g))"

definition texture_names :: "kuhl_geometry \<Rightarrow> string list" where
  "texture_names g = map tex_name (take (texture_count g) (textures g))"

text \<open>
  The first example node with both slots of its attribute array in use, and with a
  second slot that has a name, which the program does not have, and no buffer.
\<close>

definition example_node_full :: kuhl_geometry where
  "example_node_full =
     example_node_a\<lparr>attrib_count := 2,
                    attribs := [\<lparr>name = Some ''in_Position'', bufferobject = 1\<rparr>,
                                \<lparr>name = Some ''in_Normal'', bufferobject = 2\<rparr>]\<rparr>"

definition example_node_mismatch :: kuhl_geometry where
  "example_node_mismatch =
     example_node_a\<lparr>attrib_count := 2,
                    attribs := [\<lparr>name = Some ''in_Position'', bufferobject = 1\<rparr>,
                                \<lparr>name = Some ''in_Color'', bufferobject = 0\<rparr>]\<rparr>"

text \<open>
  An attribute slot is consistent when it has a name exactly when it has a buffer, and a
  node is when the slots in use are. A name is active when it is not null and the
  program has an attribute of that name.
\<close>

definition attrib_slot_consistent :: "kuhl_attrib \<Rightarrow> bool" where
  "attrib_slot_consistent a \<longleftrightarrow> (name a \<noteq> None) = (bufferobject a \<noteq> 0)"

definition attribs_consistent :: "kuhl_geometry \<Rightarrow> bool" where
  "attribs_consistent g \<longleftrightarrow>
     attrib_count g \<le> length (attribs g) \<and>
     list_all attrib_slot_consistent (take (attrib_count g) (attribs g))"

definition attrib_active :: "gl_state \<Rightarrow> nat \<Rightarrow> string option \<Rightarrow> bool" where
  "attrib_active s p attributeName =
     (case attributeName of None \<Rightarrow> False | Some n \<Rightarrow> glGetAttribLocation s p n \<noteq> -1)"

section \<open>Proofs\<close>

subsection \<open>kuhl_geometry_delete on a list of two nodes\<close>

lemma delete_node_count:
  "delete_node g s = Inr (g', s') \<Longrightarrow> attrib_count g' = 0"
  by (auto simp: delete_node_def Let_def split: if_splits)

lemma delete_node_fault:
  "delete_node g s = Inl e \<Longrightarrow> attrib_count g > length (attribs g)"
  by (auto simp: delete_node_def Let_def split: if_splits)

lemma delete_returns:
  assumes "kuhl_geometry_delete geom s = Some r"
  shows "delete_post geom s r"
proof (rule kuhl_geometry_delete.raw_induct[where P = delete_post, OF _ assms])
  fix del geom s r
  assume IH: "\<And>g s y. del g s = Some y \<Longrightarrow> delete_post g s y"
    and eq: "(case geom of [] \<Rightarrow> Some (Inl Memory_fault)
      | g # next \<Rightarrow>
          if next \<noteq> []
          then Option.bind (del next s)
                (\<lambda>r. case r of Inl e \<Rightarrow> Some (Inl e)
                     | Inr (next', s') \<Rightarrow> del (g # next') s')
          else Some (case delete_node g s of Inl e \<Rightarrow> Inl e
                 | Inr (g', s') \<Rightarrow> Inr ([g'], s'))) = Some r"
  show "delete_post geom s r"
  proof (cases geom)
    case Nil
    with eq show ?thesis by (auto simp: delete_post_def)
  next
    case (Cons g nxt)
    show ?thesis
    proof (cases "nxt = []")
      case True
      with Cons eq show ?thesis
        by (auto simp: delete_post_def split: sum.splits dest: delete_node_count delete_node_fault)
    next
      case False
      with Cons eq obtain r1 where r1: "del nxt s = Some r1"
        and rest: "(case r1 of Inl e \<Rightarrow> Some (Inl e) | Inr (next', s') \<Rightarrow> del (g # next') s') = Some r"
        by (auto simp: bind_eq_Some_conv)
      note post1 = IH[OF r1]
      show ?thesis
      proof (cases r1)
        case (Inl e)
        with rest have "r = Inl e" by simp
        with post1 Inl False Cons show ?thesis by (auto simp: delete_post_def)
      next
        case (Inr p)
        obtain gs s' where p: "p = (gs, s')" by (cases p)
        with Inr rest have "del (g # gs) s' = Some r" by simp
        note post2 = IH[OF this]
        from post1 Inr p have gs: "length gs = 1" "\<forall>g \<in> set gs. attrib_count g \<le> length (attribs g)"
          by (auto simp: delete_post_def)
        show ?thesis
        proof (cases r)
          case (Inl e)
          with post2 gs Cons show ?thesis by (auto simp: delete_post_def)
        next
          case (Inr q)
          with post2 gs show ?thesis by (auto simp: delete_post_def split: prod.splits)
        qed
      qed
    qed
  qed
qed

lemma delete_diverges:
  assumes "2 \<le> length geom" and "\<forall>g \<in> set geom. attrib_count g \<le> length (attribs g)"
  shows "kuhl_geometry_delete geom s = None"
proof (cases "kuhl_geometry_delete geom s")
  case None
  then show ?thesis .
next
  case (Some r)
  from delete_returns[OF Some] assms show ?thesis
    by (cases r) (auto simp: delete_post_def split: prod.splits)
qed

text \<open>
  C1. The claim: for every finite list, \<^verbatim>\<open>kuhl_geometry_delete\<close> terminates, destroying
  the rest of the list first and then releasing the node's own buffers and vertex array.
  On the code, the loop \<^verbatim>\<open>while(geom->next != NULL)\<close> never changes \<^verbatim>\<open>geom->next\<close>: on
  the list of the two example nodes the call does not return, while it returns on the
  list of the second node alone.
\<close>

theorem kuhl_geometry_delete_two_nodes:
  "kuhl_geometry_delete [example_node_a, example_node_b] example_device = None \<and>
   kuhl_geometry_delete [example_node_b] example_device \<noteq> None"
proof
  show "kuhl_geometry_delete [example_node_a, example_node_b] example_device = None"
    by (rule delete_diverges) (simp_all add: example_node_a_def example_node_b_def)
  show "kuhl_geometry_delete [example_node_b] example_device \<noteq> None"
    by (simp add: kuhl_geometry_delete.simps)
qed

subsection \<open>kuhl_bbox_transform with the identity matrix\<close>

lemma upt8: "[0 ..< 8] = [0, 1, 2, 3, 4, 5, 6, 7::nat]"
  by (simp add: upt_rec)

lemma mat4f_mult_vec4f_identity:
  "mat4f_mult_vec4f_new mat4f_identity [a, b, c, d] = [a, b, c, d]"
  by (simp add: mat4f_mult_vec4f_new_def mat4f_identity_def upt_rec)

lemma bbox_coords_identity:
  "fold (bbox_transform_row mat4f_mult_vec4f_new mat4f_identity) [0 ..< 8]
     (bbox_coords [1, 2, 1, 2, 1, 2] behind) = bbox_coords [1, 2, 1, 2, 1, 2] behind"
  by (simp add: upt8 bbox_transform_row_def bbox_coords_def mat4f_mult_vec4f_identity Let_def)

text \<open>
  C2. The claim: with the identity matrix \<^verbatim>\<open>kuhl_bbox_transform\<close> returns the box it was
  given, the hull of the eight transformed corners. On the code, the array of corners
  holds seven corners and a row of zeros, so the origin is folded into the result: the
  box from 1 to 2 on every axis comes back as the box from 0 to 2, whatever float lies
  behind the array.
\<close>

theorem kuhl_bbox_transform_identity_example:
  "kuhl_bbox_transform mat4f_mult_vec4f_new behind [1, 2, 1, 2, 1, 2] (Some mat4f_identity)
     = [0, 2, 0, 2, 0, 2]"
  by (simp add: kuhl_bbox_transform_def bbox_coords_identity Let_def)
     (simp add: upt8 bbox_fold_row_def bbox_coords_def Let_def)

subsection \<open>Bone weights of the vertices of a mesh\<close>

text \<open>
  The block has no limit of its own: \<^verbatim>\<open>count\<close> is never compared with 4. On the mesh of
  one vertex with five influences, which the importer does not deliver, the fifth one
  would be written behind the end of both arrays.
\<close>

lemma load_model_bone_attribs_five_bones:
  "load_model_bone_attribs MAX_BONES junk example_mesh_five_bones =
     (if MAX_BONES < 5 then Inl Exit_failure else Inl Memory_fault)"
  by (simp add: load_model_bone_attribs_def example_mesh_five_bones_def zero_weights_def upt_rec)























subsection \<open>Key selection at the time of the last key\<close>

text \<open>
  C4. The claim: the interpolator selects the pair of keys around \<^verbatim>\<open>ticks\<close> and
  degenerates to the last key when \<^verbatim>\<open>ticks\<close> exceeds all keys but the last. On the code,
  when no key lies after \<^verbatim>\<open>ticks\<close> the search loop ends without \<^verbatim>\<open>break\<close> and the start
  index keeps its initial value 0: at the time 2 of the last of three position keys the
  pair is the first two keys and the factor is 2, so that the position is extrapolated
  to (2, 0, 0) from the keys at the times 0 and 1, while the last key holds (5, 0, 0).
\<close>

theorem kuhl_private_anim_matrix_last_key:
  "key_start 2 (mPositionKeys example_channel) = 0 \<and>
   key_end (mPositionKeys example_channel) 0 = 1 \<and>
   key_factor 2 (mPositionKeys example_channel) 0 1 = 2 \<and>
   kuhl_private_anim_matrix vm example_channel 2 =
     Inr (mat4f_mult_mat4f_new vm
            (mat4f_mult_mat4f_new vm
               (mat4f_translateVec_new vm [2, 0, 0])
               (mat4f_rotateQuatVec_new vm (quatf_slerp_new vm [0, 0, 0, 1] [0, 0, 0, 1] 0)))
            (mat4f_scaleVec_new vm [1, 1, 1]))"
  by (simp add: kuhl_private_anim_matrix_def key_lerp_def key_slerp_def key_start_def
      key_end_def key_factor_def vec3f_scalarMult_def vec3f_add_new_def example_channel_def
      upt_rec Let_def)

subsection \<open>The matrix of a node outside of an animation\<close>

text \<open>
  C5. With an animation index that is out of range, or a negative time,
  \<^verbatim>\<open>kuhl_private_node_matrix\<close> returns the matrix stored in the node and the flag 0,
  whatever the keys of the animations are; and so it does for a time whose tick, the
  product of the time and of the rate of the animation as the machine rounds it, lies
  after the duration of the animation.
\<close>

theorem kuhl_private_node_matrix_static:
  assumes "animationNum \<ge> length (mAnimations scene) \<or> t < 0 \<or>
           mult_double t (mTicksPerSecond (mAnimations scene ! animationNum))
             > mDuration (mAnimations scene ! animationNum)"
  shows "kuhl_private_node_matrix vm mult_double scene node animationNum t = Inr (mTransformation node, 0)"
  using assms by (auto simp: kuhl_private_node_matrix_def Let_def)

text \<open>
  On the example scene: a negative time, an index that is out of range and a time after
  the two ticks of the animation give the matrix of the node; half a second into the
  animation the root has the matrix of its channel.
\<close>

theorem kuhl_private_node_matrix_static_witness:
  "(\<forall>vm. kuhl_private_node_matrix vm example_mult_double example_scene example_child 0 (-1)
            = Inr (mTransformation example_child, 0)) \<and>
   (\<forall>vm. kuhl_private_node_matrix vm example_mult_double example_scene example_root 0 (-1)
            = Inr (mTransformation example_root, 0)) \<and>
   (\<forall>vm. kuhl_private_node_matrix vm example_mult_double example_scene example_root 1 (1 / 2)
            = Inr (mTransformation example_root, 0)) \<and>
   (\<forall>vm. kuhl_private_node_matrix vm example_mult_double example_scene example_root 0 3
            = Inr (mTransformation example_root, 0)) \<and>
   (\<forall>vm. kuhl_private_node_matrix vm example_mult_double example_scene example_root 0 (1 / 2)
            = Inr (mat4f_mult_mat4f_new vm
                 (mat4f_mult_mat4f_new vm
                    (mat4f_translateVec_new vm [1 / 2, 0, 0])
                    (mat4f_rotateQuatVec_new vm (quatf_slerp_new vm [0, 0, 0, 1] [0, 0, 0, 1] 0)))
                 (mat4f_scaleVec_new vm [1, 1, 1]), 1))"
proof (intro conjI allI)
  fix vm
  show "kuhl_private_node_matrix vm example_mult_double example_scene example_child 0 (-1)
          = Inr (mTransformation example_child, 0)"
    by (rule kuhl_private_node_matrix_static) simp
  show "kuhl_private_node_matrix vm example_mult_double example_scene example_root 0 (-1)
          = Inr (mTransformation example_root, 0)"
    by (rule kuhl_private_node_matrix_static) simp
  show "kuhl_private_node_matrix vm example_mult_double example_scene example_root 1 (1 / 2)
          = Inr (mTransformation example_root, 0)"
    by (rule kuhl_private_node_matrix_static) (simp add: example_scene_def)
  show "kuhl_private_node_matrix vm example_mult_double example_scene example_root 0 3
          = Inr (mTransformation example_root, 0)"
    by (rule kuhl_private_node_matrix_static)
      (simp add: example_scene_def example_mult_double_def)
  show "kuhl_private_node_matrix vm example_mult_double example_scene example_root 0 (1 / 2)
            = Inr (mat4f_mult_mat4f_new vm
                 (mat4f_mult_mat4f_new vm
                    (mat4f_translateVec_new vm [1 / 2, 0, 0])
                    (mat4f_rotateQuatVec_new vm (quatf_slerp_new vm [0, 0, 0, 1] [0, 0, 0, 1] 0)))
                 (mat4f_scaleVec_new vm [1, 1, 1]), 1)"
    by (simp add: kuhl_private_node_matrix_def kuhl_private_anim_matrix_def key_lerp_def
        key_slerp_def key_start_def key_end_def key_factor_def vec3f_scalarMult_def
        vec3f_add_new_def example_channel_def example_scene_def example_root_def
        example_mult_double_def upt_rec Let_def)
qed

subsection \<open>Nodes that kuhl_update_model leaves alone\<close>

lemma update_node_not_animated:
  "not_animated g \<Longrightarrow> update_node vm mult_double animationNum t g = Some (Inr g)"
  by (simp add: update_node_def not_animated_def)

lemma kuhl_update_model_all_not_animated:
  "list_all not_animated geoms \<Longrightarrow> kuhl_update_model vm mult_double geoms animationNum t = Some (Inr geoms)"
  by (induction geoms) (simp_all add: update_node_not_animated)

lemma kuhl_update_model_frame:
  "kuhl_update_model vm mult_double geoms animationNum t = Some (Inr geoms') \<Longrightarrow>
   length geoms' = length geoms \<and>
   (\<forall>i < length geoms. not_animated (geoms ! i) \<longrightarrow> geoms' ! i = geoms ! i)"
proof (induction geoms arbitrary: geoms')
  case Nil
  then show ?case by simp
next
  case (Cons g nxt)
  from Cons.prems obtain g' nxt' where
    g': "update_node vm mult_double animationNum t g = Some (Inr g')"
    and nxt': "kuhl_update_model vm mult_double nxt animationNum t = Some (Inr nxt')"
    and eq: "geoms' = g' # nxt'"
    by (fastforce split: Option.bind_splits sum.splits)
  note IH = Cons.IH[OF nxt']
  show ?case
  proof (intro conjI allI impI)
    show "length geoms' = length (g # nxt)" using IH eq by simp
  next
    fix i
    assume i: "i < length (g # nxt)" and skip: "not_animated ((g # nxt) ! i)"
    show "geoms' ! i = (g # nxt) ! i"
    proof (cases i)
      case 0
      with skip g' eq show ?thesis by (simp add: update_node_not_animated)
    next
      case (Suc j)
      with i skip IH eq show ?thesis by auto
    qed
  qed
qed

lemma compose_ancestors_example:
  "compose_ancestors vm example_mult_double example_scene 0 (1 / 2) (Suc 0) mat4f_identity =
     Some (Inr (mat4f_mult_mat4f_new vm
       (mat4f_mult_mat4f_new vm
          (mat4f_mult_mat4f_new vm
             (mat4f_translateVec_new vm [1 / 2, 0, 0])
             (mat4f_rotateQuatVec_new vm (quatf_slerp_new vm [0, 0, 0, 1] [0, 0, 0, 1] 0)))
          (mat4f_scaleVec_new vm [1, 1, 1]))
       (mat4f_mult_mat4f_new vm (mTransformation example_child) mat4f_identity)))"
  by (simp add: compose_ancestors.simps kuhl_private_node_matrix_def
      kuhl_private_anim_matrix_def key_lerp_def key_slerp_def key_start_def key_end_def
      key_factor_def vec3f_scalarMult_def vec3f_add_new_def example_channel_def
      example_scene_def example_root_def example_child_def example_mult_double_def upt_rec
      Let_def)

lemma example_node_c_fields:
  "assimp_scene example_node_c = Some example_scene"
  "assimp_node example_node_c = Some (Suc 0)"
  "bones example_node_c = None"
  "mAnimations example_scene \<noteq> []"
  by (simp_all add: example_node_c_def example_node_b_def example_scene_def)

lemma update_node_example:
  "\<exists>m. update_node vm example_mult_double 0 (1 / 2) example_node_c = Some (Inr (example_node_c\<lparr>matrix := m\<rparr>))"
  by (simp add: update_node_def example_node_c_fields compose_ancestors_example) blast

lemma kuhl_update_model_example:
  "\<exists>m. kuhl_update_model vm example_mult_double [example_node_b, example_node_c] 0 (1 / 2) =
     Some (Inr [example_node_b, example_node_c\<lparr>matrix := m\<rparr>])"
proof -
  have "not_animated example_node_b"
    by (simp add: not_animated_def example_node_b_def)
  then have b: "update_node vm example_mult_double 0 (1 / 2) example_node_b = Some (Inr example_node_b)"
    by (rule update_node_not_animated)
  from update_node_example obtain m where
    c: "update_node vm example_mult_double 0 (1 / 2) example_node_c = Some (Inr (example_node_c\<lparr>matrix := m\<rparr>))"
    by blast
  from b c have "kuhl_update_model vm example_mult_double [example_node_b, example_node_c] 0 (1 / 2) =
     Some (Inr [example_node_b, example_node_c\<lparr>matrix := m\<rparr>])"
    by simp
  then show ?thesis ..
qed

text \<open>
  C10. A node of the list without scene, with a scene that has no animation, or without
  scene node comes out of \<^verbatim>\<open>kuhl_update_model\<close> as it went in, with its matrix and its
  bone matrices, for every animation index and time and whatever the other nodes of the
  list are; and on a list of such nodes only, the call returns.
\<close>

theorem kuhl_update_model_not_animated:
  "(list_all not_animated geoms \<longrightarrow>
      kuhl_update_model vm mult_double geoms animationNum t = Some (Inr geoms)) \<and>
   (kuhl_update_model vm mult_double geoms animationNum t = Some (Inr geoms') \<longrightarrow>
      length geoms' = length geoms \<and>
      (\<forall>i < length geoms. not_animated (geoms ! i) \<longrightarrow>
         matrix (geoms' ! i) = matrix (geoms ! i) \<and> bones (geoms' ! i) = bones (geoms ! i) \<and>
         geoms' ! i = geoms ! i))"
  using kuhl_update_model_all_not_animated[of geoms vm mult_double animationNum t]
    kuhl_update_model_frame[of vm mult_double geoms animationNum t geoms']
  by auto

text \<open>
  On the list of the node without scene and of the node of the animated child, half a
  second into the animation: the call returns and the first node is unchanged. The list
  of the two nodes without scene comes back as it is.
\<close>

theorem kuhl_update_model_not_animated_witness:
  "\<forall>vm. not_animated example_node_b \<and> \<not> not_animated example_node_c \<and>
     (\<exists>geoms'. kuhl_update_model vm example_mult_double [example_node_b, example_node_c] 0 (1 / 2)
                  = Some (Inr geoms') \<and>
               length geoms' = 2 \<and> geoms' ! 0 = example_node_b \<and>
               matrix (geoms' ! 0) = mat4f_identity) \<and>
     kuhl_update_model vm example_mult_double [example_node_a, example_node_b] 0 (1 / 2)
       = Some (Inr [example_node_a, example_node_b])"
proof (intro allI conjI)
  fix vm
  show b: "not_animated example_node_b"
    by (simp add: not_animated_def example_node_b_def)
  show "\<not> not_animated example_node_c"
    by (simp add: not_animated_def example_node_c_def example_scene_def)
  have a: "not_animated example_node_a"
    by (simp add: not_animated_def example_node_a_def)
  from kuhl_update_model_example obtain m where
    ev: "kuhl_update_model vm example_mult_double [example_node_b, example_node_c] 0 (1 / 2) =
           Some (Inr [example_node_b, example_node_c\<lparr>matrix := m\<rparr>])"
    by blast
  from kuhl_update_model_not_animated
         [of "[example_node_b, example_node_c]" vm example_mult_double 0 "1 / 2"
             "[example_node_b, example_node_c\<lparr>matrix := m\<rparr>]"] ev b
  have "matrix ([example_node_b, example_node_c\<lparr>matrix := m\<rparr>] ! 0) = matrix example_node_b"
    by simp
  then have "matrix ([example_node_b, example_node_c\<lparr>matrix := m\<rparr>] ! 0) = mat4f_identity"
    by (simp add: example_node_b_def)
  with ev show "\<exists>geoms'. kuhl_update_model vm example_mult_double [example_node_b, example_node_c] 0 (1 / 2)
                  = Some (Inr geoms') \<and>
               length geoms' = 2 \<and> geoms' ! 0 = example_node_b \<and>
               matrix (geoms' ! 0) = mat4f_identity"
    by simp
  from kuhl_update_model_not_animated
         [of "[example_node_a, example_node_b]" vm example_mult_double 0 "1 / 2" "[]"] a b
  show "kuhl_update_model vm example_mult_double [example_node_a, example_node_b] 0 (1 / 2)
          = Some (Inr [example_node_a, example_node_b])"
    by simp
qed

subsection \<open>Attaching indices\<close>

lemma index_reports_length:
  "length (index_reports v idx) = length (filter (\<lambda>x. x \<ge> v) idx)"
proof -
  have "map ((!) idx) (filter (\<lambda>i. idx ! i \<ge> v) [0 ..< length idx]) = filter (\<lambda>x. x \<ge> v) (map ((!) idx) [0 ..< length idx])"
    by (simp add: filter_map comp_def)
  then have "length (filter (\<lambda>i. idx ! i \<ge> v) [0 ..< length idx]) = length (filter (\<lambda>x. x \<ge> v) idx)"
    by (metis length_map map_nth)
  then show ?thesis by (simp add: index_reports_def)
qed

lemma kuhl_geometry_indices_stores:
  assumes "indexCount \<noteq> 0" and "indexCount \<le> length idx"
    and "primitive_type geom = GL_TRIANGLES \<longrightarrow> indexCount mod 3 = 0"
    and "primitive_type geom = GL_LINES \<longrightarrow> indexCount mod 2 = 0"
  shows "\<exists>g' s'. kuhl_geometry_indices s geom (Some idx) indexCount = Inr (g', s') \<and>
           indices g' = Some idx \<and> indices_len g' = indexCount \<and>
           element_data s' (indices_bufferobject g') = take indexCount idx \<and>
           messages s' = messages s @ index_reports (vertex_count geom) (take indexCount idx)"
  using assms
  by (auto simp: kuhl_geometry_indices_def Let_def glBindVertexArray_def
      glBindBuffer_ELEMENT_ARRAY_def glBufferData_ELEMENT_ARRAY_def)

text \<open>
  C8. \<^verbatim>\<open>kuhl_geometry_indices\<close> with a count of 0 or a null array only prints a warning;
  with a count that is not a multiple of 3 for triangles, or of 2 for lines, it ends the
  process; otherwise it returns, the node holds the array and the count, the index buffer
  holds the indices as they were given, and one report has been printed for each index
  that is not below the vertex count.
\<close>

theorem kuhl_geometry_indices_contract:
  "(indexCount = 0 \<or> indices' = None \<longrightarrow>
      kuhl_geometry_indices s geom indices' indexCount = Inr (geom, msg Warning_indices_empty s)) \<and>
   (indexCount \<noteq> 0 \<and> indices' \<noteq> None \<and>
    (primitive_type geom = GL_TRIANGLES \<and> indexCount mod 3 \<noteq> 0 \<or>
     primitive_type geom = GL_LINES \<and> indexCount mod 2 \<noteq> 0) \<longrightarrow>
      kuhl_geometry_indices s geom indices' indexCount = Inl Exit_failure) \<and>
   (indexCount \<noteq> 0 \<and> indices' = Some idx \<and> indexCount \<le> length idx \<and>
    (primitive_type geom = GL_TRIANGLES \<longrightarrow> indexCount mod 3 = 0) \<and>
    (primitive_type geom = GL_LINES \<longrightarrow> indexCount mod 2 = 0) \<longrightarrow>
      (\<exists>g' s'. kuhl_geometry_indices s geom indices' indexCount = Inr (g', s') \<and>
         indices g' = Some idx \<and> indices_len g' = indexCount \<and>
         element_data s' (indices_bufferobject g') = take indexCount idx \<and>
         messages s' = messages s @ index_reports (vertex_count geom) (take indexCount idx) \<and>
         length (index_reports (vertex_count geom) (take indexCount idx)) =
           length (filter (\<lambda>x. x \<ge> vertex_count geom) (take indexCount idx))))"
proof (intro conjI impI)
  assume "indexCount = 0 \<or> indices' = None"
  then show "kuhl_geometry_indices s geom indices' indexCount = Inr (geom, msg Warning_indices_empty s)"
    by (auto simp: kuhl_geometry_indices_def)
next
  assume "indexCount \<noteq> 0 \<and> indices' \<noteq> None \<and>
    (primitive_type geom = GL_TRIANGLES \<and> indexCount mod 3 \<noteq> 0 \<or>
     primitive_type geom = GL_LINES \<and> indexCount mod 2 \<noteq> 0)"
  then show "kuhl_geometry_indices s geom indices' indexCount = Inl Exit_failure"
    by (auto simp: kuhl_geometry_indices_def)
next
  assume a: "indexCount \<noteq> 0 \<and> indices' = Some idx \<and> indexCount \<le> length idx \<and>
    (primitive_type geom = GL_TRIANGLES \<longrightarrow> indexCount mod 3 = 0) \<and>
    (primitive_type geom = GL_LINES \<longrightarrow> indexCount mod 2 = 0)"
  with kuhl_geometry_indices_stores[of indexCount idx geom s]
  show "\<exists>g' s'. kuhl_geometry_indices s geom indices' indexCount = Inr (g', s') \<and>
         indices g' = Some idx \<and> indices_len g' = indexCount \<and>
         element_data s' (indices_bufferobject g') = take indexCount idx \<and>
         messages s' = messages s @ index_reports (vertex_count geom) (take indexCount idx) \<and>
         length (index_reports (vertex_count geom) (take indexCount idx)) =
           length (filter (\<lambda>x. x \<ge> vertex_count geom) (take indexCount idx))"
    by (auto simp: index_reports_length)
qed

lemma example_node_b_fields:
  "primitive_type example_node_b = 4" "vertex_count example_node_b = 3"
  by (simp_all add: example_node_b_def)

text \<open>
  On the second example node, a triangle mesh of three vertices: a count of 0, a null
  array, a count of 4, and six indices of which the last one is 7.
\<close>

theorem kuhl_geometry_indices_contract_witness:
  "kuhl_geometry_indices example_device example_node_b (Some [0, 1, 2, 2, 1, 7]) 0
     = Inr (example_node_b, msg Warning_indices_empty example_device) \<and>
   kuhl_geometry_indices example_device example_node_b None 6
     = Inr (example_node_b, msg Warning_indices_empty example_device) \<and>
   kuhl_geometry_indices example_device example_node_b (Some [0, 1, 2, 2, 1, 7]) 4
     = Inl Exit_failure \<and>
   (\<exists>g' s'. kuhl_geometry_indices example_device example_node_b (Some [0, 1, 2, 2, 1, 7]) 6
               = Inr (g', s') \<and>
            indices g' = Some [0, 1, 2, 2, 1, 7] \<and> indices_len g' = 6 \<and>
            element_data s' (indices_bufferobject g') = [0, 1, 2, 2, 1, 7] \<and>
            messages s' = [Report_index_out_of_range 3 5 7])"
proof (intro conjI)
  show "kuhl_geometry_indices example_device example_node_b (Some [0, 1, 2, 2, 1, 7]) 0
     = Inr (example_node_b, msg Warning_indices_empty example_device)"
    using kuhl_geometry_indices_contract
            [of 0 "Some [0, 1, 2, 2, 1, 7]" example_device example_node_b "[]"]
    by simp
  show "kuhl_geometry_indices example_device example_node_b None 6
     = Inr (example_node_b, msg Warning_indices_empty example_device)"
    using kuhl_geometry_indices_contract [of 6 None example_device example_node_b "[]"]
    by simp
  show "kuhl_geometry_indices example_device example_node_b (Some [0, 1, 2, 2, 1, 7]) 4
     = Inl Exit_failure"
    using kuhl_geometry_indices_contract
            [of 4 "Some [0, 1, 2, 2, 1, 7]" example_device example_node_b "[]"]
    by (simp add: example_node_b_fields)
  have r: "index_reports 3 [0, 1, 2, 2, 1, 7] = [Report_index_out_of_range 3 5 7]"
    by (simp add: index_reports_def upt_rec)
  have m: "messages example_device = []"
    by (simp add: example_device_def)
  have "\<exists>g' s'. kuhl_geometry_indices example_device example_node_b (Some [0, 1, 2, 2, 1, 7]) 6
               = Inr (g', s') \<and>
            indices g' = Some [0, 1, 2, 2, 1, 7] \<and> indices_len g' = 6 \<and>
            element_data s' (indices_bufferobject g') = [0, 1, 2, 2, 1, 7] \<and>
            messages s' = index_reports 3 [0, 1, 2, 2, 1, 7]"
    using kuhl_geometry_indices_contract
            [of 6 "Some [0, 1, 2, 2, 1, 7]" example_device example_node_b "[0, 1, 2, 2, 1, 7]"]
    by (simp add: example_node_b_fields m) blast
  then show "\<exists>g' s'. kuhl_geometry_indices example_device example_node_b (Some [0, 1, 2, 2, 1, 7]) 6
               = Inr (g', s') \<and>
            indices g' = Some [0, 1, 2, 2, 1, 7] \<and> indices_len g' = 6 \<and>
            element_data s' (indices_bufferobject g') = [0, 1, 2, 2, 1, 7] \<and>
            messages s' = [Report_index_out_of_range 3 5 7]"
    unfolding r .
qed

subsection \<open>The bindings of the device around a draw\<close>

lemma draw_node_returns:
  "texture_count g \<le> length (textures g) \<Longrightarrow> attrib_count g \<le> length (attribs g) \<Longrightarrow>
   \<exists>g' s'. draw_node MAX_BONES g s = Inr (g', s')"
  by (simp add: draw_node_def)

lemma kuhl_geometry_draw_returns:
  "list_all (\<lambda>g. texture_count g \<le> length (textures g) \<and> attrib_count g \<le> length (attribs g)) geoms
   \<Longrightarrow> \<exists>geoms' s'. kuhl_geometry_draw MAX_BONES geoms s = Inr (geoms', s')"
proof (induction geoms arbitrary: s)
  case Nil
  then show ?case by simp
next
  case (Cons g nxt)
  then obtain g' s1 where d: "draw_node MAX_BONES g s = Inr (g', s1)"
    using draw_node_returns[of g MAX_BONES s] by auto
  from Cons have nx: "\<And>s. \<exists>geoms' s'. kuhl_geometry_draw MAX_BONES nxt s = Inr (geoms', s')"
    by simp
  show ?case
  proof (cases "\<not> glIsProgram s (program g) \<or> \<not> glIsVertexArray s (vao g)")
    case True
    then show ?thesis by (auto simp: Let_def)
  next
    case False
    obtain gs s6 where "kuhl_geometry_draw MAX_BONES nxt
        (glBindVertexArray (vertex_array_binding s)
          (glUseProgram (current_program s)
            (glBindTexture_2D (texture_binding_2d s (active_texture s))
              (glActiveTexture (active_texture s) s1)))) = Inr (gs, s6)"
      using nx by blast
    with False d show ?thesis by (simp add: Let_def)
  qed
qed

lemma restore_bindings:
  "recorded_bindings
     (glBindVertexArray v (glUseProgram p (glBindTexture_2D t (glActiveTexture u s1))))
   = (p, u, t, v)"
  by (simp add: recorded_bindings_def glBindVertexArray_def glUseProgram_def
      glBindTexture_2D_def glActiveTexture_def)

lemma msg_bindings: "recorded_bindings (msg m s) = recorded_bindings s"
  by (simp add: recorded_bindings_def msg_def)

lemma kuhl_geometry_draw_recorded:
  "kuhl_geometry_draw MAX_BONES geoms s = Inr (geoms', s') \<Longrightarrow>
   recorded_bindings s' = recorded_bindings s"
proof (induction geoms arbitrary: s geoms' s')
  case Nil
  then show ?case by simp
next
  case (Cons g nxt)
  show ?case
  proof (cases "\<not> glIsProgram s (program g) \<or> \<not> glIsVertexArray s (vao g)")
    case True
    with Cons.prems show ?thesis by (auto simp: Let_def msg_bindings)
  next
    case False
    with Cons.prems obtain g' s1 nxt' where
      "draw_node MAX_BONES g s = Inr (g', s1)"
      and rec: "kuhl_geometry_draw MAX_BONES nxt
        (glBindVertexArray (vertex_array_binding s)
          (glUseProgram (current_program s)
            (glBindTexture_2D (texture_binding_2d s (active_texture s))
              (glActiveTexture (active_texture s) s1)))) = Inr (nxt', s')"
      by (auto simp: Let_def split: sum.splits)
    from Cons.IH[OF rec] show ?thesis
      by (simp add: restore_bindings) (simp add: recorded_bindings_def)
  qed
qed

lemma draw_unbind_textures_Suc:
  "draw_unbind_textures (Suc n) s =
     glBindTexture_2D 0 (glActiveTexture (GL_TEXTURE0 + n) (draw_unbind_textures n s))"
  by (simp add: draw_unbind_textures_def)

lemma draw_unbind_textures_clears:
  "i < n \<Longrightarrow> texture_binding_2d (draw_unbind_textures n s) (GL_TEXTURE0 + i) = 0"
proof (induction n)
  case 0
  then show ?case by simp
next
  case (Suc n)
  then show ?case
    by (cases "i = n")
       (simp_all add: draw_unbind_textures_Suc glBindTexture_2D_def glActiveTexture_def)
qed

lemma draw_node_clears:
  "draw_node MAX_BONES g s = Inr (g', s1) \<Longrightarrow> i < texture_count g \<Longrightarrow>
   texture_binding_2d s1 (GL_TEXTURE0 + i) = 0"
  by (auto simp: draw_node_def draw_unbind_textures_clears split: if_splits)

lemma kuhl_geometry_draw_single_clears:
  assumes "glIsProgram s (program g)" and "glIsVertexArray s (vao g)"
    and "texture_count g \<le> length (textures g)" and "attrib_count g \<le> length (attribs g)"
    and "i < texture_count g" and "GL_TEXTURE0 + i \<noteq> active_texture s"
  shows "\<exists>g' s'. kuhl_geometry_draw MAX_BONES [g] s = Inr ([g'], s') \<and>
           texture_binding_2d s' (GL_TEXTURE0 + i) = 0"
proof -
  from draw_node_returns[OF assms(3,4)] obtain g' s1 where
    d: "draw_node MAX_BONES g s = Inr (g', s1)" by blast
  from draw_node_clears[OF d assms(5)] have "texture_binding_2d s1 (GL_TEXTURE0 + i) = 0" .
  with assms(1,2,6) d show ?thesis
    by (simp add: Let_def glBindVertexArray_def glUseProgram_def glBindTexture_2D_def
        glActiveTexture_def)
qed

lemma draw_frame_calls:
  "programs (glUseProgram p s) = programs s"
  "vertex_arrays (glUseProgram p s) = vertex_arrays s"
  "texture_binding_2d (glUseProgram p s) = texture_binding_2d s"
  "programs (glActiveTexture a s) = programs s"
  "vertex_arrays (glActiveTexture a s) = vertex_arrays s"
  "texture_binding_2d (glActiveTexture a s) = texture_binding_2d s"
  "active_texture (glActiveTexture a s) = a"
  "programs (glBindTexture_2D t s) = programs s"
  "vertex_arrays (glBindTexture_2D t s) = vertex_arrays s"
  "texture_binding_2d (glBindTexture_2D t s) = (texture_binding_2d s)(active_texture s := t)"
  "programs (issue c s) = programs s"
  "vertex_arrays (issue c s) = vertex_arrays s"
  "texture_binding_2d (issue c s) = texture_binding_2d s"
  "programs (msg m s) = programs s"
  "vertex_arrays (msg m s) = vertex_arrays s"
  "texture_binding_2d (msg m s) = texture_binding_2d s"
  "programs (glBindVertexArray v s) = programs s"
  "set (vertex_arrays s) \<subseteq> set (vertex_arrays (glBindVertexArray v s))"
  "texture_binding_2d (glBindVertexArray v s) = texture_binding_2d s"
  "programs (glBindBuffer_ARRAY b s) = programs s"
  "vertex_arrays (glBindBuffer_ARRAY b s) = vertex_arrays s"
  "texture_binding_2d (glBindBuffer_ARRAY b s) = texture_binding_2d s"
  "programs (glUnmapBuffer_ARRAY s) = programs s"
  "vertex_arrays (glUnmapBuffer_ARRAY s) = vertex_arrays s"
  "texture_binding_2d (glUnmapBuffer_ARRAY s) = texture_binding_2d s"
  by (auto simp: glUseProgram_def glActiveTexture_def glBindTexture_2D_def issue_def msg_def
      glBindVertexArray_def glBindBuffer_ARRAY_def glUnmapBuffer_ARRAY_def)

lemma draw_bind_textures_frame:
  "programs (snd (draw_bind_textures prog i ts (h, s))) = programs s \<and>
   vertex_arrays (snd (draw_bind_textures prog i ts (h, s))) = vertex_arrays s \<and>
   (\<forall>u. (\<forall>k < length ts. u \<noteq> GL_TEXTURE0 + (i + k)) \<longrightarrow>
      texture_binding_2d (snd (draw_bind_textures prog i ts (h, s))) u = texture_binding_2d s u)"
proof (induction ts arbitrary: i h s)
  case Nil
  then show ?case by simp
next
  case (Cons t ts)
  have sh: "(\<forall>k < length ts. u \<noteq> GL_TEXTURE0 + (Suc i + k)) \<and> u \<noteq> GL_TEXTURE0 + i"
    if "\<forall>k < length (t # ts). u \<noteq> GL_TEXTURE0 + (i + k)" for u
  proof
    show "\<forall>k < length ts. u \<noteq> GL_TEXTURE0 + (Suc i + k)"
    proof (intro allI impI)
      fix k assume "k < length ts"
      then have "Suc k < length (t # ts)" by simp
      with that have "u \<noteq> GL_TEXTURE0 + (i + Suc k)" by blast
      then show "u \<noteq> GL_TEXTURE0 + (Suc i + k)" by simp
    qed
    from that have "u \<noteq> GL_TEXTURE0 + (i + 0)" by (metis length_Cons zero_less_Suc)
    then show "u \<noteq> GL_TEXTURE0 + i" by simp
  qed
  show ?case
    using Cons.IH[of "Suc i"] sh
    by (simp add: Let_def draw_frame_calls)
qed

lemma draw_unmap_attribs_frame:
  "programs (draw_unmap_attribs as s) = programs s \<and>
   vertex_arrays (draw_unmap_attribs as s) = vertex_arrays s \<and>
   texture_binding_2d (draw_unmap_attribs as s) = texture_binding_2d s"
  by (induction as arbitrary: s) (simp_all add: Let_def draw_frame_calls)


lemma draw_frame_branches:
  "programs (if c then issue x s else s) = programs s"
  "vertex_arrays (if c then issue x s else s) = vertex_arrays s"
  "texture_binding_2d (if c then issue x s else s) = texture_binding_2d s"
  "programs (if c then issue x s else if d then msg m s else s) = programs s"
  "vertex_arrays (if c then issue x s else if d then msg m s else s) = vertex_arrays s"
  "texture_binding_2d (if c then issue x s else if d then msg m s else s) = texture_binding_2d s"
  "programs (if c then issue x s else issue y s) = programs s"
  "vertex_arrays (if c then issue x s else issue y s) = vertex_arrays s"
  "texture_binding_2d (if c then issue x s else issue y s) = texture_binding_2d s"
  by (simp_all add: issue_def msg_def)

lemma glBindVertexArray_names:
  "set (vertex_arrays (glBindVertexArray v s)) =
     (if v \<noteq> 0 then insert v (set (vertex_arrays s)) else set (vertex_arrays s))"
  by (auto simp: glBindVertexArray_def)

lemma draw_node_calls_frame:
  "programs (draw_node_calls MAX_BONES g s) = programs s \<and>
   set (vertex_arrays s) \<subseteq> set (vertex_arrays (draw_node_calls MAX_BONES g s)) \<and>
   (\<forall>u. (\<forall>k < texture_count g. u \<noteq> GL_TEXTURE0 + k) \<longrightarrow>
      texture_binding_2d (draw_node_calls MAX_BONES g s) u = texture_binding_2d s u)"
proof -
  define s1 where "s1 = glUseProgram (program g) s"
  define s2 where "s2 = snd (draw_bind_textures (program g) 0
                    (take (texture_count g) (textures g)) (False, s1))"
  have f1: "programs s1 = programs s" "vertex_arrays s1 = vertex_arrays s"
    "texture_binding_2d s1 = texture_binding_2d s"
    by (simp_all add: s1_def draw_frame_calls)
  have f2: "programs s2 = programs s" "vertex_arrays s2 = vertex_arrays s"
    "\<And>u. (\<forall>k < texture_count g. u \<noteq> GL_TEXTURE0 + k) \<Longrightarrow>
       texture_binding_2d s2 u = texture_binding_2d s u"
    using draw_bind_textures_frame[of "program g" 0 "take (texture_count g) (textures g)" False s1]
    by (simp_all add: s2_def f1)
  have "programs (draw_node_calls MAX_BONES g s) = programs s2 \<and>
        set (vertex_arrays s2) \<subseteq> set (vertex_arrays (draw_node_calls MAX_BONES g s)) \<and>
        texture_binding_2d (draw_node_calls MAX_BONES g s) = texture_binding_2d s2"
    unfolding draw_node_calls_def Let_def s2_def[symmetric] s1_def[symmetric]
    by (auto simp: draw_frame_calls draw_frame_branches draw_unmap_attribs_frame
        glBindVertexArray_names)
  with f2 show ?thesis by simp
qed

lemma draw_unbind_textures_frame:
  "programs (draw_unbind_textures n s) = programs s \<and>
   vertex_arrays (draw_unbind_textures n s) = vertex_arrays s \<and>
   (\<forall>u. (\<forall>k < n. u \<noteq> GL_TEXTURE0 + k) \<longrightarrow>
      texture_binding_2d (draw_unbind_textures n s) u = texture_binding_2d s u)"
proof (induction n)
  case 0
  then show ?case by (simp add: draw_unbind_textures_def)
next
  case (Suc n)
  then show ?case by (simp add: draw_unbind_textures_Suc draw_frame_calls)
qed

lemma draw_node_frame:
  assumes "draw_node MAX_BONES g s = Inr (g', s1)"
  shows "programs s1 = programs s" "set (vertex_arrays s) \<subseteq> set (vertex_arrays s1)"
    "texture_binding_2d s1 u =
       (if \<exists>k < texture_count g. u = GL_TEXTURE0 + k then 0 else texture_binding_2d s u)"
proof -
  from assms have s1: "s1 = draw_unbind_textures (texture_count g) (draw_node_calls MAX_BONES g s)"
    by (auto simp: draw_node_def split: if_splits)
  show "programs s1 = programs s" "set (vertex_arrays s) \<subseteq> set (vertex_arrays s1)"
    using draw_unbind_textures_frame[of "texture_count g" "draw_node_calls MAX_BONES g s"]
      draw_node_calls_frame[of MAX_BONES g s]
    by (simp_all add: s1)
  show "texture_binding_2d s1 u =
       (if \<exists>k < texture_count g. u = GL_TEXTURE0 + k then 0 else texture_binding_2d s u)"
  proof (cases "\<exists>k < texture_count g. u = GL_TEXTURE0 + k")
    case True
    then obtain k where "k < texture_count g" "u = GL_TEXTURE0 + k" by blast
    with draw_node_clears[OF assms this(1)] True show ?thesis by simp
  next
    case False
    then have "\<forall>k < texture_count g. u \<noteq> GL_TEXTURE0 + k" by blast
    with draw_unbind_textures_frame[of "texture_count g" "draw_node_calls MAX_BONES g s"]
      draw_node_calls_frame[of MAX_BONES g s] False
    show ?thesis by (auto simp: s1)
  qed
qed

lemma drawable_mono:
  "drawable s g \<Longrightarrow> programs s' = programs s \<Longrightarrow>
   set (vertex_arrays s) \<subseteq> set (vertex_arrays s') \<Longrightarrow> drawable s' g"
  by (auto simp: drawable_def glIsProgram_def glIsVertexArray_def)

lemma kuhl_geometry_draw_units:
  "list_all (drawable s) geoms \<Longrightarrow>
   \<exists>geoms' s'. kuhl_geometry_draw MAX_BONES geoms s = Inr (geoms', s') \<and>
     length geoms' = length geoms \<and>
     (\<forall>u. u \<noteq> active_texture s \<longrightarrow>
        texture_binding_2d s' u =
          (if \<exists>g \<in> set geoms. \<exists>k < texture_count g. u = GL_TEXTURE0 + k then 0
           else texture_binding_2d s u))"
proof (induction geoms arbitrary: s)
  case Nil
  then show ?case by simp
next
  case (Cons g nxt)
  from Cons.prems have dg: "drawable s g" and dn: "list_all (drawable s) nxt" by simp_all
  from dg obtain g' s1 where d: "draw_node MAX_BONES g s = Inr (g', s1)"
    using draw_node_returns[of g MAX_BONES s] by (auto simp: drawable_def)
  define s5 where "s5 = glBindVertexArray (vertex_array_binding s)
          (glUseProgram (current_program s)
            (glBindTexture_2D (texture_binding_2d s (active_texture s))
              (glActiveTexture (active_texture s) s1)))"
  note fr = draw_node_frame[OF d]
  have p5: "programs s5 = programs s"
    by (simp add: s5_def draw_frame_calls fr)
  have v5: "set (vertex_arrays s) \<subseteq> set (vertex_arrays s5)"
    using fr(2) draw_frame_calls(18)[of "glUseProgram (current_program s)
            (glBindTexture_2D (texture_binding_2d s (active_texture s))
              (glActiveTexture (active_texture s) s1))" "vertex_array_binding s"]
    by (simp add: s5_def draw_frame_calls)
  have a5: "active_texture s5 = active_texture s"
    using restore_bindings[of "vertex_array_binding s" "current_program s"
        "texture_binding_2d s (active_texture s)" "active_texture s" s1]
    by (simp add: s5_def recorded_bindings_def)
  have t5: "texture_binding_2d s5 u =
      (if \<exists>k < texture_count g. u = GL_TEXTURE0 + k then 0 else texture_binding_2d s u)"
    if "u \<noteq> active_texture s" for u
    using that fr(3)[of u] by (simp add: s5_def draw_frame_calls)
  from dn have "list_all (drawable s5) nxt"
    by (auto simp: list_all_iff intro: drawable_mono[OF _ p5 v5])
  from Cons.IH[OF this] obtain nxt' s' where
    r: "kuhl_geometry_draw MAX_BONES nxt s5 = Inr (nxt', s')"
    and len: "length nxt' = length nxt"
    and tb: "\<forall>u. u \<noteq> active_texture s5 \<longrightarrow>
        texture_binding_2d s' u =
          (if \<exists>g \<in> set nxt. \<exists>k < texture_count g. u = GL_TEXTURE0 + k then 0
           else texture_binding_2d s5 u)"
    by blast
  from dg d r have res: "kuhl_geometry_draw MAX_BONES (g # nxt) s = Inr (g' # nxt', s')"
    by (simp add: drawable_def Let_def s5_def)
  have "texture_binding_2d s' u =
          (if \<exists>g \<in> set (g # nxt). \<exists>k < texture_count g. u = GL_TEXTURE0 + k then 0
           else texture_binding_2d s u)" if "u \<noteq> active_texture s" for u
    using tb[rule_format, of u] that t5[OF that] a5 by auto
  with res len show ?case by simp
qed


lemma example_drawable:
  "list_all (drawable example_device) [example_node_a, example_node_b]"
  "list_all (drawable example_device_in_use) [example_node_a, example_node_b]"
  by (simp_all add: drawable_def example_node_a_def example_node_b_def example_device_def
      example_device_in_use_def glIsProgram_def glIsVertexArray_def)

lemma draw_left_calls:
  "current_program (glUseProgram p s) = p"
  "current_program (glActiveTexture a s) = current_program s"
  "current_program (glBindTexture_2D t s) = current_program s"
  "current_program (issue c s) = current_program s"
  "current_program (msg m s) = current_program s"
  "current_program (glBindVertexArray v s) = current_program s"
  "current_program (glBindBuffer_ARRAY b s) = current_program s"
  "current_program (glUnmapBuffer_ARRAY s) = current_program s"
  "vertex_array_binding (glBindVertexArray v s) = v"
  "vertex_array_binding (glActiveTexture a s) = vertex_array_binding s"
  "vertex_array_binding (glBindTexture_2D t s) = vertex_array_binding s"
  "vertex_array_binding (issue c s) = vertex_array_binding s"
  "vertex_array_binding (glBindBuffer_ARRAY b s) = vertex_array_binding s"
  "vertex_array_binding (glUnmapBuffer_ARRAY s) = vertex_array_binding s"
  "current_program (if c' then issue x s else s) = current_program s"
  "current_program (if c' then issue x s else if d then msg m s else s) = current_program s"
  "current_program (if c' then issue x s else issue y s) = current_program s"
  "vertex_array_binding (if c' then issue x s else issue y s) = vertex_array_binding s"
  by (simp_all add: glUseProgram_def glActiveTexture_def glBindTexture_2D_def issue_def msg_def
      glBindVertexArray_def glBindBuffer_ARRAY_def glUnmapBuffer_ARRAY_def)

lemma draw_bind_textures_left:
  "current_program (snd (draw_bind_textures prog i ts (h, s))) = current_program s"
  by (induction ts arbitrary: i h s) (simp_all add: Let_def draw_left_calls)

lemma draw_unmap_attribs_left:
  "current_program (draw_unmap_attribs as s) = current_program s \<and>
   vertex_array_binding (draw_unmap_attribs as s) = vertex_array_binding s"
  by (induction as arbitrary: s) (simp_all add: Let_def draw_left_calls)

lemma draw_unbind_textures_left:
  "current_program (draw_unbind_textures n s) = current_program s \<and>
   vertex_array_binding (draw_unbind_textures n s) = vertex_array_binding s \<and>
   active_texture (draw_unbind_textures n s) =
     (if n = 0 then active_texture s else GL_TEXTURE0 + (n - 1))"
proof (induction n)
  case 0
  then show ?case by (simp add: draw_unbind_textures_def)
next
  case (Suc n)
  then show ?case
    by (simp add: draw_unbind_textures_Suc draw_left_calls glBindTexture_2D_def
        glActiveTexture_def)
qed

lemma draw_node_calls_left:
  "current_program (draw_node_calls MAX_BONES g s) = program g \<and>
   vertex_array_binding (draw_node_calls MAX_BONES g s) = vao g"
proof -
  define s2 where "s2 = snd (draw_bind_textures (program g) 0
                    (take (texture_count g) (textures g)) (False, glUseProgram (program g) s))"
  have f2: "current_program s2 = program g"
    by (simp add: s2_def draw_bind_textures_left draw_left_calls)
  have "current_program (draw_node_calls MAX_BONES g s) = current_program s2 \<and>
        vertex_array_binding (draw_node_calls MAX_BONES g s) = vao g"
    unfolding draw_node_calls_def Let_def s2_def[symmetric]
    by (simp add: draw_left_calls draw_unmap_attribs_left)
  with f2 show ?thesis by simp
qed

lemma draw_node_left:
  assumes "draw_node MAX_BONES g s = Inr (g', s1)"
  shows "current_program s1 = program g \<and> vertex_array_binding s1 = vao g \<and>
         active_texture s1 =
           (if texture_count g = 0 then active_texture (draw_node_calls MAX_BONES g s)
            else GL_TEXTURE0 + (texture_count g - 1))"
proof -
  from assms have s1: "s1 = draw_unbind_textures (texture_count g) (draw_node_calls MAX_BONES g s)"
    by (auto simp: draw_node_def split: if_splits)
  show ?thesis
    using draw_unbind_textures_left[of "texture_count g" "draw_node_calls MAX_BONES g s"]
      draw_node_calls_left[of MAX_BONES g s]
    by (simp add: s1)
qed

lemma example_draw_node:
  "\<exists>g1 s1. draw_node 128 example_node_a example_device_in_use = Inr (g1, s1) \<and>
     current_program s1 = 1 \<and> active_texture s1 = GL_TEXTURE0 + 1 \<and>
     texture_binding_2d s1 GL_TEXTURE0 = 0 \<and> vertex_array_binding s1 = 1"
proof -
  from draw_node_returns[of example_node_a 128 example_device_in_use] obtain g1 s1 where
    d: "draw_node 128 example_node_a example_device_in_use = Inr (g1, s1)"
    by (auto simp: example_node_a_def)
  from draw_node_left[OF d] draw_node_clears[OF d, of 0] d show ?thesis
    by (simp add: example_node_a_def)
qed

lemma example_wf:
  "list_all (\<lambda>g. texture_count g \<le> length (textures g) \<and> attrib_count g \<le> length (attribs g))
     [example_node_a, example_node_b]"
  by (simp add: example_node_a_def example_node_b_def)

text \<open>
  C9, the claim as it stands: drawing restores the device bindings that it changes and
  so has no effect on the state of the device. On the code, the last loop binds texture 0
  on every texture unit below \<^verbatim>\<open>texture_count\<close>, and only the unit that was active on
  entry gets its texture back: texture 7, bound on the second unit of the example
  device, is no longer bound there after the first example node has been drawn.
\<close>

theorem kuhl_geometry_draw_texture_unit_counterexample:
  "\<not> isl (kuhl_geometry_draw 128 [example_node_a] example_device) \<and>
   texture_binding_2d (snd (projr (kuhl_geometry_draw 128 [example_node_a] example_device)))
     (GL_TEXTURE0 + 1) = 0 \<and>
   texture_binding_2d example_device (GL_TEXTURE0 + 1) = 7"
proof -
  have "\<exists>g' s'. kuhl_geometry_draw 128 [example_node_a] example_device = Inr ([g'], s') \<and>
           texture_binding_2d s' (GL_TEXTURE0 + 1) = 0"
    by (rule kuhl_geometry_draw_single_clears)
       (simp_all add: example_node_a_def example_device_def glIsProgram_def glIsVertexArray_def)
  moreover have "texture_binding_2d example_device (GL_TEXTURE0 + 1) = 7"
    by (simp add: example_device_def)
  ultimately show ?thesis by auto
qed

text \<open>
  C9, amended. When \<^verbatim>\<open>kuhl_geometry_draw\<close> returns, the program in use, the active texture
  unit, the 2D texture bound on that unit and the bound vertex array object are those of
  the entry, for every list of nodes. The 2D binding of another texture unit below the
  \<^verbatim>\<open>texture_count\<close> of a node of the list is not restored: on every list of nodes that
  the call draws, it is 0 when the call returns, for every node of the list. The 2D
  binding of a unit that is below the \<^verbatim>\<open>texture_count\<close> of no node of the list is the one
  of the entry.
\<close>

theorem kuhl_geometry_draw_restores:
  "(kuhl_geometry_draw MAX_BONES geoms s = Inr (geoms', s') \<longrightarrow>
      current_program s' = current_program s \<and>
      active_texture s' = active_texture s \<and>
      texture_binding_2d s' (active_texture s) = texture_binding_2d s (active_texture s) \<and>
      vertex_array_binding s' = vertex_array_binding s) \<and>
   (list_all (drawable s) geoms \<and> g \<in> set geoms \<and> i < texture_count g \<and>
    GL_TEXTURE0 + i \<noteq> active_texture s \<longrightarrow>
      (\<exists>geoms' s'. kuhl_geometry_draw MAX_BONES geoms s = Inr (geoms', s') \<and>
         length geoms' = length geoms \<and>
         texture_binding_2d s' (GL_TEXTURE0 + i) = 0)) \<and>
   (list_all (drawable s) geoms \<and>
    (\<forall>g \<in> set geoms. \<forall>k < texture_count g. u \<noteq> GL_TEXTURE0 + k) \<longrightarrow>
      (\<exists>geoms' s'. kuhl_geometry_draw MAX_BONES geoms s = Inr (geoms', s') \<and>
         length geoms' = length geoms \<and>
         texture_binding_2d s' u = texture_binding_2d s u))"
proof -
  have restored: "current_program s' = current_program s \<and>
      active_texture s' = active_texture s \<and>
      texture_binding_2d s' (active_texture s) = texture_binding_2d s (active_texture s) \<and>
      vertex_array_binding s' = vertex_array_binding s"
    if "kuhl_geometry_draw MAX_BONES geoms s = Inr (geoms', s')" for geoms' s'
    using kuhl_geometry_draw_recorded[OF that] by (auto simp: recorded_bindings_def)
  have cleared: "\<exists>geoms' s'. kuhl_geometry_draw MAX_BONES geoms s = Inr (geoms', s') \<and>
         length geoms' = length geoms \<and>
         texture_binding_2d s' (GL_TEXTURE0 + i) = 0"
    if "list_all (drawable s) geoms \<and> g \<in> set geoms \<and> i < texture_count g \<and>
        GL_TEXTURE0 + i \<noteq> active_texture s"
  proof -
    from that have d: "list_all (drawable s) geoms" and g: "g \<in> set geoms"
      and i: "i < texture_count g" and a: "GL_TEXTURE0 + i \<noteq> active_texture s" by simp_all
    from kuhl_geometry_draw_units[OF d, of MAX_BONES] obtain geoms' s' where
      r: "kuhl_geometry_draw MAX_BONES geoms s = Inr (geoms', s')"
      and len: "length geoms' = length geoms"
      and tb: "\<forall>u. u \<noteq> active_texture s \<longrightarrow>
        texture_binding_2d s' u =
          (if \<exists>g \<in> set geoms. \<exists>k < texture_count g. u = GL_TEXTURE0 + k then 0
           else texture_binding_2d s u)"
      by blast
    from g i have "\<exists>g \<in> set geoms. \<exists>k < texture_count g. GL_TEXTURE0 + i = GL_TEXTURE0 + k"
      by blast
    with tb[rule_format, OF a] have "texture_binding_2d s' (GL_TEXTURE0 + i) = 0" by simp
    with r len show ?thesis by blast
  qed
  have kept: "\<exists>geoms' s'. kuhl_geometry_draw MAX_BONES geoms s = Inr (geoms', s') \<and>
         length geoms' = length geoms \<and>
         texture_binding_2d s' u = texture_binding_2d s u"
    if "list_all (drawable s) geoms \<and>
        (\<forall>g \<in> set geoms. \<forall>k < texture_count g. u \<noteq> GL_TEXTURE0 + k)"
  proof -
    from that have d: "list_all (drawable s) geoms"
      and u: "\<not> (\<exists>g \<in> set geoms. \<exists>k < texture_count g. u = GL_TEXTURE0 + k)" by auto
    from kuhl_geometry_draw_units[OF d, of MAX_BONES] obtain geoms' s' where
      r: "kuhl_geometry_draw MAX_BONES geoms s = Inr (geoms', s')"
      and len: "length geoms' = length geoms"
      and tb: "\<forall>u. u \<noteq> active_texture s \<longrightarrow>
        texture_binding_2d s' u =
          (if \<exists>g \<in> set geoms. \<exists>k < texture_count g. u = GL_TEXTURE0 + k then 0
           else texture_binding_2d s u)"
      by blast
    have "texture_binding_2d s' u = texture_binding_2d s u"
    proof (cases "u = active_texture s")
      case True
      with restored[OF r] show ?thesis by simp
    next
      case False
      from tb[rule_format, OF False] u show ?thesis by simp
    qed
    with r len show ?thesis by blast
  qed
  from restored[of geoms' s'] cleared kept show ?thesis by blast
qed

text \<open>
  On the example device in use. The body of the draw of the first example node leaves
  program 1, the second texture unit active, no texture on the first unit and the vertex
  array object 1; when the draw of the list of the two example nodes returns, the
  program is 3 again, the active unit the first one, with texture 7, and the vertex array
  object 4. Texture 7 of the second unit of the example device is no longer bound there
  after the draw of the two nodes, the first of which has two textures; texture 5 of the
  third unit of the device in use is still bound there.
\<close>

theorem kuhl_geometry_draw_restores_witness:
  "(\<exists>g1 s1. draw_node 128 example_node_a example_device_in_use = Inr (g1, s1) \<and>
     current_program s1 = 1 \<and> active_texture s1 = GL_TEXTURE0 + 1 \<and>
     texture_binding_2d s1 GL_TEXTURE0 = 0 \<and> vertex_array_binding s1 = 1) \<and>
   (\<exists>geoms' s'. kuhl_geometry_draw 128 [example_node_a, example_node_b] example_device_in_use
                  = Inr (geoms', s') \<and>
     current_program s' = 3 \<and> active_texture s' = GL_TEXTURE0 \<and>
     texture_binding_2d s' GL_TEXTURE0 = 7 \<and> vertex_array_binding s' = 4) \<and>
   texture_binding_2d example_device (GL_TEXTURE0 + 1) = 7 \<and>
   (\<exists>geoms' s'. kuhl_geometry_draw 128 [example_node_a, example_node_b] example_device
                  = Inr (geoms', s') \<and>
     length geoms' = 2 \<and> texture_binding_2d s' (GL_TEXTURE0 + 1) = 0) \<and>
   (\<exists>geoms' s'. kuhl_geometry_draw 128 [example_node_a, example_node_b] example_device_in_use
                  = Inr (geoms', s') \<and>
     length geoms' = 2 \<and> texture_binding_2d s' (GL_TEXTURE0 + 2) = 5)"
proof (intro conjI)
  show "\<exists>g1 s1. draw_node 128 example_node_a example_device_in_use = Inr (g1, s1) \<and>
     current_program s1 = 1 \<and> active_texture s1 = GL_TEXTURE0 + 1 \<and>
     texture_binding_2d s1 GL_TEXTURE0 = 0 \<and> vertex_array_binding s1 = 1"
    by (rule example_draw_node)
next
  from kuhl_geometry_draw_returns[OF example_wf] obtain geoms' s' where
    d: "kuhl_geometry_draw 128 [example_node_a, example_node_b] example_device_in_use
          = Inr (geoms', s')"
    by blast
  from kuhl_geometry_draw_restores
         [THEN conjunct1, rule_format, OF d]
  have "current_program s' = 3 \<and> active_texture s' = GL_TEXTURE0 \<and>
     texture_binding_2d s' GL_TEXTURE0 = 7 \<and> vertex_array_binding s' = 4"
    by (simp add: example_device_in_use_def example_device_def)
  with d show "\<exists>geoms' s'. kuhl_geometry_draw 128 [example_node_a, example_node_b]
                  example_device_in_use = Inr (geoms', s') \<and>
     current_program s' = 3 \<and> active_texture s' = GL_TEXTURE0 \<and>
     texture_binding_2d s' GL_TEXTURE0 = 7 \<and> vertex_array_binding s' = 4"
    by blast
next
  show "texture_binding_2d example_device (GL_TEXTURE0 + 1) = 7"
    by (simp add: example_device_def)
next
  have h: "list_all (drawable example_device) [example_node_a, example_node_b] \<and>
    example_node_a \<in> set [example_node_a, example_node_b] \<and>
    1 < texture_count example_node_a \<and> GL_TEXTURE0 + 1 \<noteq> active_texture example_device"
    using example_drawable(1) by (simp add: example_node_a_def example_device_def)
  from kuhl_geometry_draw_restores
         [where MAX_BONES = 128, THEN conjunct2, THEN conjunct1, rule_format, OF h]
  obtain geoms' s' where
    "kuhl_geometry_draw 128 [example_node_a, example_node_b] example_device = Inr (geoms', s')"
    "length geoms' = length [example_node_a, example_node_b]"
    "texture_binding_2d s' (GL_TEXTURE0 + 1) = 0"
    by blast
  then show "\<exists>geoms' s'. kuhl_geometry_draw 128 [example_node_a, example_node_b] example_device
                  = Inr (geoms', s') \<and>
     length geoms' = 2 \<and> texture_binding_2d s' (GL_TEXTURE0 + 1) = 0"
    by (intro exI[of _ geoms'] exI[of _ s']) simp
next
  have h: "list_all (drawable example_device_in_use) [example_node_a, example_node_b] \<and>
    (\<forall>g \<in> set [example_node_a, example_node_b]. \<forall>k < texture_count g.
       GL_TEXTURE0 + 2 \<noteq> GL_TEXTURE0 + k)"
    using example_drawable(2) by (simp add: example_node_a_def example_node_b_def)
  from kuhl_geometry_draw_restores
         [where MAX_BONES = 128, THEN conjunct2, THEN conjunct2, rule_format, OF h]
  obtain geoms' s' where
    "kuhl_geometry_draw 128 [example_node_a, example_node_b] example_device_in_use
       = Inr (geoms', s')"
    "length geoms' = length [example_node_a, example_node_b]"
    "texture_binding_2d s' (GL_TEXTURE0 + 2)
       = texture_binding_2d example_device_in_use (GL_TEXTURE0 + 2)"
    by blast
  then show "\<exists>geoms' s'. kuhl_geometry_draw 128 [example_node_a, example_node_b] example_device_in_use
                  = Inr (geoms', s') \<and>
     length geoms' = 2 \<and> texture_binding_2d s' (GL_TEXTURE0 + 2) = 5"
    by (intro exI[of _ geoms'] exI[of _ s']) (simp add: example_device_in_use_def)
qed

subsection \<open>The counts of attributes and textures\<close>

lemma attrib_index_from_range:
  "attrib_index_from i n as = Inr k \<Longrightarrow> k = -1 \<or> (int i \<le> k \<and> k < int i + int (length as))"
proof (induction as arbitrary: i)
  case Nil
  then show ?case by simp
next
  case (Cons a as)
  show ?case
  proof (cases "name a")
    case None
    with Cons.prems show ?thesis by simp
  next
    case (Some m)
    show ?thesis
    proof (cases "n = m")
      case True
      with Some Cons.prems show ?thesis by auto
    next
      case False
      with Some Cons.prems have "attrib_index_from (Suc i) n as = Inr k" by simp
      from Cons.IH[OF this] show ?thesis by auto
    qed
  qed
qed

lemma kuhl_geometry_attrib_index_range:
  "kuhl_geometry_attrib_index (Some g) (Some n) = Inr k \<Longrightarrow>
   attrib_count g \<le> length (attribs g) \<and> (k = -1 \<or> (0 \<le> k \<and> k < int (attrib_count g)))"
  by (auto simp: kuhl_geometry_attrib_index_def split: if_splits dest!: attrib_index_from_range)

lemma attrib_index_from_absent:
  "attrib_index_from i n as = Inr (-1) \<longleftrightarrow>
     None \<notin> set (map name as) \<and> Some n \<notin> set (map name as)"
  by (induction as arbitrary: i) (auto split: option.splits)

lemma attrib_index_from_present:
  "attrib_index_from i n as = Inr k \<Longrightarrow> Some n \<in> set (map name as) \<Longrightarrow>
     int i \<le> k \<and> nat k - i < length as \<and> name (as ! (nat k - i)) = Some n \<and>
     Some n \<notin> set (map name (take (nat k - i) as))"
proof (induction as arbitrary: i)
  case Nil
  then show ?case by simp
next
  case (Cons a as)
  show ?case
  proof (cases "name a")
    case None
    with Cons.prems show ?thesis by simp
  next
    case (Some m)
    show ?thesis
    proof (cases "n = m")
      case True
      with Some Cons.prems show ?thesis by auto
    next
      case False
      with Some Cons.prems have r: "attrib_index_from (Suc i) n as = Inr k"
        and m: "Some n \<in> set (map name as)" by auto
      from Cons.IH[OF r m] have ih: "int (Suc i) \<le> k" "nat k - Suc i < length as"
        "name (as ! (nat k - Suc i)) = Some n"
        "Some n \<notin> set (map name (take (nat k - Suc i) as))" by simp_all
      from ih(1) have e: "nat k - i = Suc (nat k - Suc i)" by linarith
      from ih False Some show ?thesis unfolding e by auto
    qed
  qed
qed

lemma kuhl_geometry_attrib_index_absent:
  assumes "attrib_count g \<le> length (attribs g)"
  shows "kuhl_geometry_attrib_index (Some g) (Some n) = Inr (-1) \<longleftrightarrow>
     None \<notin> set (attrib_names g) \<and> Some n \<notin> set (attrib_names g)"
  using assms by (simp add: kuhl_geometry_attrib_index_def attrib_names_def attrib_index_from_absent)

lemma kuhl_geometry_attrib_index_present:
  assumes "kuhl_geometry_attrib_index (Some g) (Some n) = Inr k"
    and "Some n \<in> set (attrib_names g)"
  shows "0 \<le> k \<and> nat k < attrib_count g \<and> name (attribs g ! nat k) = Some n"
proof -
  from assms(1) have le: "attrib_count g \<le> length (attribs g)"
    and r: "attrib_index_from 0 n (take (attrib_count g) (attribs g)) = Inr k"
    by (auto simp: kuhl_geometry_attrib_index_def split: if_splits)
  from attrib_index_from_present[OF r] assms(2) le show ?thesis
    by (auto simp: attrib_names_def)
qed

lemma attrib_store_capacity:
  assumes "attrib_capacity_ok MAX_ATTRIBUTES g"
    and "attrib_store MAX_ATTRIBUTES s g d components n loc = Inr (g', s')"
  shows "attrib_capacity_ok MAX_ATTRIBUTES g' \<and> texture_count g' = texture_count g \<and>
         textures g' = textures g"
proof -
  from assms(2) obtain k where k: "kuhl_geometry_attrib_index (Some g) (Some n) = Inr k"
    by (auto simp: attrib_store_def split: sum.splits)
  from kuhl_geometry_attrib_index_range[OF k] have r: "k = -1 \<or> (0 \<le> k \<and> k < int (attrib_count g))"
    by simp
  from assms k r show ?thesis
    by (auto simp: attrib_store_def attrib_capacity_ok_def Let_def split: if_splits)
qed

lemma attrib_store_full:
  assumes "attrib_count g = MAX_ATTRIBUTES"
    and "kuhl_geometry_attrib_index (Some g) (Some n) = Inr (-1)"
  shows "attrib_store MAX_ATTRIBUTES s g d components n loc = Inl Exit_failure"
  using assms by (simp add: attrib_store_def Let_def)

lemma attrib_store_overwrite:
  assumes "kuhl_geometry_attrib_index (Some g) (Some n) = Inr k" and "0 \<le> k"
    and "attrib_store MAX_ATTRIBUTES s g d components n loc = Inr (g', s')"
  shows "attrib_count g' = attrib_count g"
  using assms by (auto simp: attrib_store_def Let_def split: if_splits)

lemma kuhl_geometry_attrib_cases:
  "kuhl_geometry_attrib MAX_ATTRIBUTES s (Some g) data components name' w = Inr (r, s') \<Longrightarrow>
   r = Some g \<or>
   (\<exists>g' d loc. r = Some g' \<and>
      attrib_store MAX_ATTRIBUTES s g d components (the name') loc = Inr (g', s'))"
  by (auto simp: kuhl_geometry_attrib_def Let_def split: if_splits sum.splits)

lemma kuhl_geometry_attrib_accepted:
  assumes "n \<noteq> []" and "components \<noteq> 0" and "glIsVertexArray s (vao g)"
    and "glGetAttribLocation s (program g) n \<noteq> -1"
  shows "kuhl_geometry_attrib MAX_ATTRIBUTES s (Some g) (Some d) components (Some n) w =
          (case attrib_store MAX_ATTRIBUTES s g d components n
                  (glGetAttribLocation s (program g) n) of
             Inl e \<Rightarrow> Inl e
           | Inr (g', s') \<Rightarrow> Inr (Some g', s'))"
  using assms by (simp add: kuhl_geometry_attrib_def Let_def)

lemma kuhl_geometry_new_counts:
  "kuhl_geometry_new s geom p v t = Inr (g0, s0) \<Longrightarrow>
   attrib_count g0 = 0 \<and> texture_count g0 = 0 \<and>
   attribs g0 = attribs geom \<and> textures g0 = textures geom"
  by (auto simp: kuhl_geometry_new_def Let_def split: if_splits)

lemma texture_dest_absent:
  "n \<notin> set (map tex_name ts) \<Longrightarrow> texture_dest n ts i d = d"
  by (induction ts arbitrary: i d) auto

lemma texture_dest_range:
  "texture_dest n ts i d = d \<or> (i \<le> texture_dest n ts i d \<and> texture_dest n ts i d < i + length ts)"
proof (induction ts arbitrary: i d)
  case Nil
  then show ?case by simp
next
  case (Cons t ts)
  from Cons.IH[of "Suc i" "if n = tex_name t then i else d"] show ?case
    by (auto split: if_splits)
qed

lemma texture_dest_present:
  "n \<in> set (map tex_name ts) \<Longrightarrow>
   i \<le> texture_dest n ts i d \<and> texture_dest n ts i d < i + length ts"
proof (induction ts arbitrary: i d)
  case Nil
  then show ?case by simp
next
  case (Cons t ts)
  show ?case
  proof (cases "n \<in> set (map tex_name ts)")
    case True
    from Cons.IH[OF True, of "Suc i" "if n = tex_name t then i else d"] show ?thesis
      by auto
  next
    case False
    with Cons.prems have "n = tex_name t" by auto
    with texture_dest_absent[OF False, of "Suc i" i] show ?thesis by simp
  qed
qed

lemma msg_is_update: "msg m s = s\<lparr>messages := messages s @ [m]\<rparr>"
  by (simp add: msg_def)

lemma texture_store_state:
  assumes "texture_store MAX_TEXTURES warn s g texture n = Inr (g', s')"
  shows "\<exists>ms. s' = s\<lparr>messages := ms\<rparr>"
proof -
  have self: "s = s\<lparr>messages := messages s\<rparr>" by simp
  from assms have "s' = s \<or> s' = msg Warning_texture_argument s \<or>
      s' = msg (Warning_sampler_missing n (program g)) s"
    by (auto simp: texture_store_def Let_def split: if_split_asm)
  then show ?thesis
    using self msg_is_update by metis
qed

lemma texture_store_capacity:
  assumes "texture_capacity_ok MAX_TEXTURES g"
    and "texture_store MAX_TEXTURES warn s g texture n = Inr (g', s')"
  shows "texture_capacity_ok MAX_TEXTURES g' \<and> attrib_count g' = attrib_count g \<and>
         attribs g' = attribs g"
proof -
  from texture_dest_range[of n "take (texture_count g) (textures g)" 0 "texture_count g"]
  have "texture_dest n (take (texture_count g) (textures g)) 0 (texture_count g) \<le> texture_count g"
    by auto
  with assms show ?thesis
    by (auto simp: texture_store_def texture_capacity_ok_def Let_def split: if_splits)
qed

lemma texture_store_no_fault:
  assumes "texture_capacity_ok MAX_TEXTURES g"
  shows "texture_store MAX_TEXTURES warn s g texture n \<noteq> Inl Memory_fault"
proof -
  from texture_dest_range[of n "take (texture_count g) (textures g)" 0 "texture_count g"]
  have "texture_dest n (take (texture_count g) (textures g)) 0 (texture_count g) \<le> texture_count g"
    by auto
  with assms show ?thesis
    by (auto simp: texture_store_def texture_capacity_ok_def Let_def split: if_splits)
qed

lemma texture_store_full:
  assumes "glIsVertexArray s (vao g)" and "glGetUniformLocation s (program g) n \<noteq> -1"
    and "texture_capacity_ok MAX_TEXTURES g" and "texture_count g = MAX_TEXTURES"
    and "n \<notin> set (texture_names g)"
  shows "texture_store MAX_TEXTURES warn s g texture n = Inl Exit_failure"
  using assms texture_dest_absent[of n "take (texture_count g) (textures g)" 0 "texture_count g"]
  by (simp add: texture_store_def texture_names_def texture_capacity_ok_def Let_def)

lemma texture_store_overwrite:
  assumes "n \<in> set (texture_names g)"
    and "texture_store MAX_TEXTURES warn s g texture n = Inr (g', s')"
  shows "texture_count g' = texture_count g"
proof -
  from assms(1) texture_dest_present[of n "take (texture_count g) (textures g)" 0 "texture_count g"]
  have "texture_dest n (take (texture_count g) (textures g)) 0 (texture_count g) < texture_count g"
    by (auto simp: texture_names_def)
  with assms(2) show ?thesis
    by (auto simp: texture_store_def Let_def split: if_splits)
qed


lemma kuhl_geometry_texture_state:
  "kuhl_geometry_texture MAX_TEXTURES full_list warn name' texture geoms s = Inr (geoms', s') \<Longrightarrow>
   \<exists>ms. s' = s\<lparr>messages := ms\<rparr>"
proof (induction geoms arbitrary: s geoms' s')
  case Nil
  then show ?case by (auto simp: msg_is_update)
next
  case (Cons g nxt)
  show ?case
  proof (cases "name' = None \<or> name' = Some [] \<or> texture = 0 \<or> \<not> glIsTexture s texture")
    case True
    with Cons.prems have "s' = msg Warning_texture_argument s" by (auto split: if_splits)
    then show ?thesis by (auto simp: msg_is_update)
  next
    case False
    show ?thesis
    proof (cases "full_list \<and> nxt \<noteq> []")
      case True
      with False Cons.prems obtain nxt' s1 g' where
        r: "kuhl_geometry_texture MAX_TEXTURES full_list warn name' texture nxt s = Inr (nxt', s1)"
        and st: "texture_store MAX_TEXTURES warn s1 g texture (the name') = Inr (g', s')"
        by (auto split: sum.splits)
      from Cons.IH[OF r] obtain ms where "s1 = s\<lparr>messages := ms\<rparr>" by blast
      moreover from texture_store_state[OF st] obtain ms' where "s' = s1\<lparr>messages := ms'\<rparr>" by blast
      ultimately have "s' = s\<lparr>messages := ms'\<rparr>" by simp
      then show ?thesis by blast
    next
      case True2: False
      with False Cons.prems obtain g' where
        "texture_store MAX_TEXTURES warn s g texture (the name') = Inr (g', s')"
        by (auto split: sum.splits)
      from texture_store_state[OF this] show ?thesis .
    qed
  qed
qed

lemma kuhl_geometry_texture_capacity:
  "list_all (texture_capacity_ok MAX_TEXTURES) geoms \<Longrightarrow>
   kuhl_geometry_texture MAX_TEXTURES full_list warn name' texture geoms s = Inr (geoms', s') \<Longrightarrow>
   list_all (texture_capacity_ok MAX_TEXTURES) geoms' \<and> length geoms' = length geoms \<and>
   map attrib_count geoms' = map attrib_count geoms"
proof (induction geoms arbitrary: s geoms' s')
  case Nil
  then show ?case by auto
next
  case (Cons g nxt)
  show ?case
  proof (cases "name' = None \<or> name' = Some [] \<or> texture = 0 \<or> \<not> glIsTexture s texture")
    case True
    with Cons.prems show ?thesis by (auto split: if_splits)
  next
    case False
    show ?thesis
    proof (cases "full_list \<and> nxt \<noteq> []")
      case True
      with False Cons.prems obtain nxt' s1 g' where
        r: "kuhl_geometry_texture MAX_TEXTURES full_list warn name' texture nxt s = Inr (nxt', s1)"
        and st: "texture_store MAX_TEXTURES warn s1 g texture (the name') = Inr (g', s')"
        and eq: "geoms' = g' # nxt'"
        by (auto split: sum.splits)
      from Cons.prems(1) have "list_all (texture_capacity_ok MAX_TEXTURES) nxt"
        and g: "texture_capacity_ok MAX_TEXTURES g" by simp_all
      from Cons.IH[OF this(1) r] texture_store_capacity[OF g st] eq show ?thesis by simp
    next
      case nofull: False
      with False Cons.prems obtain g' where
        st: "texture_store MAX_TEXTURES warn s g texture (the name') = Inr (g', s')"
        and eq: "geoms' = g' # nxt"
        by (auto split: sum.splits)
      from Cons.prems(1) have "list_all (texture_capacity_ok MAX_TEXTURES) nxt"
        and g: "texture_capacity_ok MAX_TEXTURES g" by simp_all
      with texture_store_capacity[OF g st] eq show ?thesis by simp
    qed
  qed
qed

lemma kuhl_geometry_texture_no_fault:
  "list_all (texture_capacity_ok MAX_TEXTURES) geoms \<Longrightarrow>
   kuhl_geometry_texture MAX_TEXTURES full_list warn name' texture geoms s \<noteq> Inl Memory_fault"
proof (induction geoms arbitrary: s)
  case Nil
  then show ?case by simp
next
  case (Cons g nxt)
  then have nxt: "\<And>s. kuhl_geometry_texture MAX_TEXTURES full_list warn name' texture nxt s \<noteq> Inl Memory_fault"
    and g: "texture_capacity_ok MAX_TEXTURES g" by simp_all
  show ?case
    using nxt[of s] texture_store_no_fault[OF g]
    by (auto split: sum.splits)
qed

lemma glIs_messages:
  "glIsVertexArray (s\<lparr>messages := ms\<rparr>) v = glIsVertexArray s v"
  "glGetUniformLocation (s\<lparr>messages := ms\<rparr>) p n = glGetUniformLocation s p n"
  by (simp_all add: glIsVertexArray_def glGetUniformLocation_def glIsProgram_def)

lemma kuhl_geometry_texture_full:
  assumes "n \<noteq> []" and "texture \<noteq> 0" and "glIsTexture s texture"
    and "glIsVertexArray s (vao g)" and "glGetUniformLocation s (program g) n \<noteq> -1"
    and "list_all (texture_capacity_ok MAX_TEXTURES) (g # nxt)"
    and "texture_count g = MAX_TEXTURES" and "n \<notin> set (texture_names g)"
  shows "kuhl_geometry_texture MAX_TEXTURES full_list warn (Some n) texture (g # nxt) s
           = Inl Exit_failure"
proof (cases "full_list \<and> nxt \<noteq> []")
  case False
  from assms(6) have g: "texture_capacity_ok MAX_TEXTURES g" by simp
  from False assms(1-3) texture_store_full[OF assms(4,5) g assms(7,8)] show ?thesis
    by auto
next
  case True
  from assms(6) have nx: "list_all (texture_capacity_ok MAX_TEXTURES) nxt"
    and g: "texture_capacity_ok MAX_TEXTURES g" by simp_all
  show ?thesis
  proof (cases "kuhl_geometry_texture MAX_TEXTURES full_list warn (Some n) texture nxt s")
    case (Inl e)
    with kuhl_geometry_texture_no_fault[OF nx, of full_list warn "Some n" texture s]
    have "e = Exit_failure" by (cases e) auto
    with Inl True assms(1-3) show ?thesis by simp
  next
    case (Inr r)
    obtain nxt' s1 where r: "r = (nxt', s1)" by (cases r)
    from kuhl_geometry_texture_state[OF Inr[unfolded r]] obtain ms where
      s1: "s1 = s\<lparr>messages := ms\<rparr>" by blast
    from assms(4,5) have "glIsVertexArray s1 (vao g)" "glGetUniformLocation s1 (program g) n \<noteq> -1"
      by (simp_all add: s1 glIs_messages)
    from texture_store_full[OF this g assms(7,8)] Inr r True assms(1-3) show ?thesis
      by simp
  qed
qed

lemma kuhl_geometry_texture_head:
  "kuhl_geometry_texture MAX_TEXTURES full_list warn name' texture (g # nxt) s
     = Inr (g' # nxt', s') \<Longrightarrow>
   g' = g \<or> (\<exists>s1. texture_store MAX_TEXTURES warn s1 g texture (the name') = Inr (g', s'))"
  by (auto split: if_splits sum.splits)

lemma example_device_facts:
  "glIsVertexArray example_device (Suc 0)" "glIsVertexArray example_device 2"
  "glIsTexture example_device 5" "glIsTexture example_device 7"
  "glIsProgram example_device (Suc 0)"
  "glGetAttribLocation example_device (Suc 0) ''in_Position'' = 0"
  "glGetAttribLocation example_device (Suc 0) ''in_Normal'' = 1"
  "glGetAttribLocation example_device (Suc 0) ''in_TexCoord'' = 2"
  "glGetAttribLocation example_device (Suc 0) ''in_Color'' = -1"
  "glGetUniformLocation example_device (Suc 0) ''tex'' = 0"
  "glGetUniformLocation example_device (Suc 0) ''tex3'' = 2"
  by (simp_all add: example_device_def glIsVertexArray_def glIsTexture_def glIsProgram_def
      glGetAttribLocation_def glGetUniformLocation_def)

lemma example_node_a_facts:
  "vao example_node_a = 1" "program example_node_a = 1" "vertex_count example_node_a = 3"
  "attrib_count example_node_a = 1" "texture_count example_node_a = 2"
  "attribs example_node_a = [\<lparr>name = Some ''in_Position'', bufferobject = 1\<rparr>,
                             \<lparr>name = None, bufferobject = 0\<rparr>]"
  "textures example_node_a = [\<lparr>tex_name = ''tex'', textureId = 5\<rparr>,
                              \<lparr>tex_name = ''tex2'', textureId = 7\<rparr>]"
  by (simp_all add: example_node_a_def)

lemma example_node_b_facts:
  "vao example_node_b = 2" "program example_node_b = 1"
  "attrib_count example_node_b = 1" "texture_count example_node_b = 0"
  "length (textures example_node_b) = 2" "length (attribs example_node_b) = 2"
  by (simp_all add: example_node_b_def)

lemma example_node_full_facts:
  "vao example_node_full = 1" "program example_node_full = 1"
  "vertex_count example_node_full = 3" "attrib_count example_node_full = 2"
  "attribs example_node_full = [\<lparr>name = Some ''in_Position'', bufferobject = 1\<rparr>,
                                \<lparr>name = Some ''in_Normal'', bufferobject = 2\<rparr>]"
  by (simp_all add: example_node_full_def example_node_a_def)

lemma example_attrib_index:
  "kuhl_geometry_attrib_index (Some example_node_a) (Some ''in_Position'') = Inr 0"
  "kuhl_geometry_attrib_index (Some example_node_a) (Some ''in_Normal'') = Inr (-1)"
  "kuhl_geometry_attrib_index (Some example_node_full) (Some ''in_TexCoord'') = Inr (-1)"
  "kuhl_geometry_attrib_index (Some example_node_full) (Some ''in_Normal'') = Inr 1"
  by (simp_all add: kuhl_geometry_attrib_index_def example_node_a_facts example_node_full_facts)

lemma example_attrib_names:
  "attrib_names example_node_a = [Some ''in_Position'']"
  "attrib_names example_node_full = [Some ''in_Position'', Some ''in_Normal'']"
  by (simp_all add: attrib_names_def example_node_a_facts example_node_full_facts)

lemma example_attrib_returns:
  "\<exists>g' s'. kuhl_geometry_attrib 2 example_device (Some example_node_a)
              (Some (replicate 9 0)) 3 (Some ''in_Normal'') 0 = Inr (Some g', s')"
  "\<exists>g' s'. kuhl_geometry_attrib 2 example_device (Some example_node_a)
              (Some (replicate 9 0)) 3 (Some ''in_Position'') 0 = Inr (Some g', s')"
  "\<exists>g' s'. kuhl_geometry_attrib 2 example_device (Some example_node_full)
              (Some (replicate 9 0)) 3 (Some ''in_Normal'') 0 = Inr (Some g', s')"
  by (simp_all add: kuhl_geometry_attrib_accepted example_device_facts example_node_a_facts
      example_node_full_facts attrib_store_def example_attrib_index Let_def)

lemma example_new_returns:
  "\<exists>g0 s0. kuhl_geometry_new example_device example_node_a 1 3 GL_TRIANGLES = Inr (g0, s0)"
  by (simp add: kuhl_geometry_new_def Let_def glIsProgram_def glBindVertexArray_def
      example_device_def)

lemma example_texture_names:
  "texture_names example_node_a = [''tex'', ''tex2'']"
  by (simp add: texture_names_def example_node_a_facts)

lemma example_texture_returns:
  "\<exists>g' s'. kuhl_geometry_texture 2 False False (Some ''tex'') 5 [example_node_b] example_device
             = Inr ([g'], s')"
  "\<exists>g' nxt' s'. kuhl_geometry_texture 2 False False (Some ''tex'') 7
                   [example_node_a, example_node_b] example_device = Inr (g' # nxt', s')"
  by (simp_all add: example_device_facts example_node_a_facts example_node_b_facts
      texture_store_def Let_def)

lemma example_capacity:
  "attrib_capacity_ok 2 example_node_a"
  "list_all (texture_capacity_ok 2) [example_node_a, example_node_b]"
  "attrib_capacity_ok 2 example_node_full"
  by (simp_all add: attrib_capacity_ok_def texture_capacity_ok_def example_node_a_facts
      example_node_b_facts example_node_full_facts)

text \<open>
  C7. The counts of a node never exceed the sizes of its arrays. A node comes out of
  \<^verbatim>\<open>kuhl_geometry_new\<close> with both counts 0. \<^verbatim>\<open>kuhl_geometry_attrib\<close>, when it returns,
  leaves the attribute count within \<^verbatim>\<open>MAX_ATTRIBUTES\<close> and the texture count as it
  was; an accepted attribute of a name that no slot in use holds, for a node that holds
  \<^verbatim>\<open>MAX_ATTRIBUTES\<close> named attributes, ends the process; an attribute of a name that a
  slot in use holds leaves the count as it was. The same holds of
  \<^verbatim>\<open>kuhl_geometry_texture\<close>, \<^verbatim>\<open>MAX_TEXTURES\<close> and the texture count, on every node of the
  list when the texture goes to the whole list.
\<close>

theorem capacity_never_exceeded:
  "(kuhl_geometry_new s geom p v t = Inr (g0, s0) \<longrightarrow>
      attrib_count g0 = 0 \<and> texture_count g0 = 0 \<and>
      attribs g0 = attribs geom \<and> textures g0 = textures geom) \<and>
   (attrib_capacity_ok MAX_ATTRIBUTES g \<and>
    kuhl_geometry_attrib MAX_ATTRIBUTES s (Some g) data components name' w = Inr (r, s') \<longrightarrow>
      (\<exists>g'. r = Some g' \<and> attrib_capacity_ok MAX_ATTRIBUTES g' \<and>
            texture_count g' = texture_count g)) \<and>
   (n \<noteq> [] \<and> components \<noteq> 0 \<and> glIsVertexArray s (vao g) \<and>
    glGetAttribLocation s (program g) n \<noteq> -1 \<and>
    attrib_capacity_ok MAX_ATTRIBUTES g \<and> attrib_count g = MAX_ATTRIBUTES \<and>
    None \<notin> set (attrib_names g) \<and> Some n \<notin> set (attrib_names g) \<longrightarrow>
      kuhl_geometry_attrib MAX_ATTRIBUTES s (Some g) (Some d) components (Some n) w
        = Inl Exit_failure) \<and>
   (Some n \<in> set (attrib_names g) \<and>
    kuhl_geometry_attrib MAX_ATTRIBUTES s (Some g) data components (Some n) w = Inr (r, s') \<longrightarrow>
      (\<exists>g'. r = Some g' \<and> attrib_count g' = attrib_count g)) \<and>
   (list_all (texture_capacity_ok MAX_TEXTURES) geoms \<and>
    kuhl_geometry_texture MAX_TEXTURES full_list warn name' texture geoms s = Inr (geoms', s') \<longrightarrow>
      list_all (texture_capacity_ok MAX_TEXTURES) geoms' \<and> length geoms' = length geoms \<and>
      map attrib_count geoms' = map attrib_count geoms) \<and>
   (n \<noteq> [] \<and> texture \<noteq> 0 \<and> glIsTexture s texture \<and> glIsVertexArray s (vao g) \<and>
    glGetUniformLocation s (program g) n \<noteq> -1 \<and>
    list_all (texture_capacity_ok MAX_TEXTURES) (g # nxt) \<and>
    texture_count g = MAX_TEXTURES \<and> n \<notin> set (texture_names g) \<longrightarrow>
      kuhl_geometry_texture MAX_TEXTURES full_list warn (Some n) texture (g # nxt) s
        = Inl Exit_failure) \<and>
   (n \<in> set (texture_names g) \<and>
    kuhl_geometry_texture MAX_TEXTURES full_list warn (Some n) texture (g # nxt) s
      = Inr (g1 # nxt1, s') \<longrightarrow>
      texture_count g1 = texture_count g)"
proof -
  have c1: "attrib_count g0 = 0 \<and> texture_count g0 = 0 \<and>
      attribs g0 = attribs geom \<and> textures g0 = textures geom"
    if "kuhl_geometry_new s geom p v t = Inr (g0, s0)"
    using that by (rule kuhl_geometry_new_counts)
  have c2: "\<exists>g'. r = Some g' \<and> attrib_capacity_ok MAX_ATTRIBUTES g' \<and>
            texture_count g' = texture_count g"
    if "attrib_capacity_ok MAX_ATTRIBUTES g \<and>
        kuhl_geometry_attrib MAX_ATTRIBUTES s (Some g) data components name' w = Inr (r, s')"
  proof -
    from that have ok: "attrib_capacity_ok MAX_ATTRIBUTES g"
      and res: "kuhl_geometry_attrib MAX_ATTRIBUTES s (Some g) data components name' w = Inr (r, s')"
      by simp_all
    from kuhl_geometry_attrib_cases[OF res] show ?thesis
    proof
      assume "r = Some g"
      with ok show ?thesis by simp
    next
      assume "\<exists>g' d loc. r = Some g' \<and>
        attrib_store MAX_ATTRIBUTES s g d components (the name') loc = Inr (g', s')"
      then obtain g' d loc where "r = Some g'"
        and "attrib_store MAX_ATTRIBUTES s g d components (the name') loc = Inr (g', s')"
        by blast
      with attrib_store_capacity[OF ok this(2)] show ?thesis by simp
    qed
  qed
  have c3: "kuhl_geometry_attrib MAX_ATTRIBUTES s (Some g) (Some d) components (Some n) w
        = Inl Exit_failure"
    if "n \<noteq> [] \<and> components \<noteq> 0 \<and> glIsVertexArray s (vao g) \<and>
        glGetAttribLocation s (program g) n \<noteq> -1 \<and>
        attrib_capacity_ok MAX_ATTRIBUTES g \<and> attrib_count g = MAX_ATTRIBUTES \<and>
        None \<notin> set (attrib_names g) \<and> Some n \<notin> set (attrib_names g)"
  proof -
    from that have "attrib_count g \<le> length (attribs g)"
      by (simp add: attrib_capacity_ok_def)
    from kuhl_geometry_attrib_index_absent[OF this, of n] that
    have "kuhl_geometry_attrib_index (Some g) (Some n) = Inr (-1)" by simp
    with that show ?thesis by (simp add: kuhl_geometry_attrib_accepted attrib_store_full)
  qed
  have c4: "\<exists>g'. r = Some g' \<and> attrib_count g' = attrib_count g"
    if "Some n \<in> set (attrib_names g) \<and>
        kuhl_geometry_attrib MAX_ATTRIBUTES s (Some g) data components (Some n) w = Inr (r, s')"
  proof -
    from that have nm: "Some n \<in> set (attrib_names g)"
      and res: "kuhl_geometry_attrib MAX_ATTRIBUTES s (Some g) data components (Some n) w = Inr (r, s')"
      by simp_all
    from kuhl_geometry_attrib_cases[OF res] show ?thesis
    proof
      assume "r = Some g"
      then show ?thesis by simp
    next
      assume "\<exists>g' d loc. r = Some g' \<and>
        attrib_store MAX_ATTRIBUTES s g d components (the (Some n)) loc = Inr (g', s')"
      then obtain g' d loc where r: "r = Some g'"
        and st: "attrib_store MAX_ATTRIBUTES s g d components n loc = Inr (g', s')"
        by auto
      from st obtain k where ix: "kuhl_geometry_attrib_index (Some g) (Some n) = Inr k"
        by (auto simp: attrib_store_def split: sum.splits)
      from kuhl_geometry_attrib_index_present[OF ix nm] have k: "0 \<le> k" by simp
      from attrib_store_overwrite[OF ix k st] r show ?thesis by simp
    qed
  qed
  have c5: "list_all (texture_capacity_ok MAX_TEXTURES) geoms' \<and> length geoms' = length geoms \<and>
      map attrib_count geoms' = map attrib_count geoms"
    if "list_all (texture_capacity_ok MAX_TEXTURES) geoms \<and>
        kuhl_geometry_texture MAX_TEXTURES full_list warn name' texture geoms s = Inr (geoms', s')"
    using that kuhl_geometry_texture_capacity by blast
  have c6: "kuhl_geometry_texture MAX_TEXTURES full_list warn (Some n) texture (g # nxt) s
        = Inl Exit_failure"
    if "n \<noteq> [] \<and> texture \<noteq> 0 \<and> glIsTexture s texture \<and> glIsVertexArray s (vao g) \<and>
        glGetUniformLocation s (program g) n \<noteq> -1 \<and>
        list_all (texture_capacity_ok MAX_TEXTURES) (g # nxt) \<and>
        texture_count g = MAX_TEXTURES \<and> n \<notin> set (texture_names g)"
    using that by (intro kuhl_geometry_texture_full) simp_all
  have c7: "texture_count g1 = texture_count g"
    if "n \<in> set (texture_names g) \<and>
        kuhl_geometry_texture MAX_TEXTURES full_list warn (Some n) texture (g # nxt) s
          = Inr (g1 # nxt1, s')"
  proof -
    from that have nm: "n \<in> set (texture_names g)"
      and res: "kuhl_geometry_texture MAX_TEXTURES full_list warn (Some n) texture (g # nxt) s
          = Inr (g1 # nxt1, s')" by simp_all
    from kuhl_geometry_texture_head[OF res] show ?thesis
    proof
      assume "g1 = g"
      then show ?thesis by simp
    next
      assume "\<exists>s1. texture_store MAX_TEXTURES warn s1 g texture (the (Some n)) = Inr (g1, s')"
      then obtain s1 where "texture_store MAX_TEXTURES warn s1 g texture n = Inr (g1, s')"
        by auto
      from texture_store_overwrite[OF nm this] show ?thesis .
    qed
  qed
  from c1 c2 c3 c4 c5 c6 c7 show ?thesis by blast
qed

text \<open>
  On the example device, with arrays of two attributes and two textures: a new node; a
  second attribute for the first example node; a third attribute for the node that holds
  two; the attribute \<^verbatim>\<open>in_Normal\<close>, which that node holds in its second slot, again; a
  first texture for the second example node;
  a third texture for the list that starts with the first node, which holds two; and the
  texture \<^verbatim>\<open>tex\<close> again.
\<close>

theorem capacity_never_exceeded_witness:
  "(\<exists>g0 s0. kuhl_geometry_new example_device example_node_a 1 3 GL_TRIANGLES = Inr (g0, s0) \<and>
      attrib_count g0 = 0 \<and> texture_count g0 = 0) \<and>
   (\<exists>g' s'. kuhl_geometry_attrib 2 example_device (Some example_node_a)
               (Some (replicate 9 0)) 3 (Some ''in_Normal'') 0 = Inr (Some g', s') \<and>
      attrib_count g' \<le> 2 \<and> texture_count g' = 2) \<and>
   kuhl_geometry_attrib 2 example_device (Some example_node_full)
     (Some (replicate 9 0)) 3 (Some ''in_TexCoord'') 0 = Inl Exit_failure \<and>
   (\<exists>g' s'. kuhl_geometry_attrib 2 example_device (Some example_node_full)
               (Some (replicate 9 0)) 3 (Some ''in_Normal'') 0 = Inr (Some g', s') \<and>
      attrib_count g' = 2) \<and>
   (\<exists>g' s'. kuhl_geometry_texture 2 False False (Some ''tex'') 5 [example_node_b] example_device
               = Inr ([g'], s') \<and>
      texture_count g' \<le> 2) \<and>
   kuhl_geometry_texture 2 True False (Some ''tex3'') 5 [example_node_a, example_node_b]
     example_device = Inl Exit_failure \<and>
   (\<exists>g' nxt' s'. kuhl_geometry_texture 2 False False (Some ''tex'') 7
                    [example_node_a, example_node_b] example_device = Inr (g' # nxt', s') \<and>
      texture_count g' = 2)"
proof (intro conjI)
  from example_new_returns obtain g0 s0 where
    e: "kuhl_geometry_new example_device example_node_a 1 3 GL_TRIANGLES = Inr (g0, s0)"
    by blast
  from capacity_never_exceeded[THEN conjunct1, rule_format, OF e]
  have "attrib_count g0 = 0 \<and> texture_count g0 = 0" by simp
  with e show "\<exists>g0 s0. kuhl_geometry_new example_device example_node_a 1 3 GL_TRIANGLES
                 = Inr (g0, s0) \<and> attrib_count g0 = 0 \<and> texture_count g0 = 0"
    by blast
next
  from example_attrib_returns(1) obtain g' s' where
    e: "kuhl_geometry_attrib 2 example_device (Some example_node_a)
          (Some (replicate 9 0)) 3 (Some ''in_Normal'') 0 = Inr (Some g', s')"
    by blast
  from capacity_never_exceeded
         [THEN conjunct2, THEN conjunct1, rule_format, OF conjI [OF example_capacity(1) e]]
  have "attrib_capacity_ok 2 g' \<and> texture_count g' = texture_count example_node_a"
    by simp
  then have "attrib_count g' \<le> 2 \<and> texture_count g' = 2"
    by (simp add: attrib_capacity_ok_def example_node_a_facts)
  with e show "\<exists>g' s'. kuhl_geometry_attrib 2 example_device (Some example_node_a)
               (Some (replicate 9 0)) 3 (Some ''in_Normal'') 0 = Inr (Some g', s') \<and>
      attrib_count g' \<le> 2 \<and> texture_count g' = 2"
    by blast
next
  have h: "''in_TexCoord'' \<noteq> [] \<and> (3::nat) \<noteq> 0 \<and>
    glIsVertexArray example_device (vao example_node_full) \<and>
    glGetAttribLocation example_device (program example_node_full) ''in_TexCoord'' \<noteq> -1 \<and>
    attrib_capacity_ok 2 example_node_full \<and> attrib_count example_node_full = 2 \<and>
    None \<notin> set (attrib_names example_node_full) \<and>
    Some ''in_TexCoord'' \<notin> set (attrib_names example_node_full)"
    using example_capacity(3)
    by (simp add: example_device_facts example_node_full_facts example_attrib_names)
  from capacity_never_exceeded
         [THEN conjunct2, THEN conjunct2, THEN conjunct1, rule_format, OF h]
  show "kuhl_geometry_attrib 2 example_device (Some example_node_full)
     (Some (replicate 9 0)) 3 (Some ''in_TexCoord'') 0 = Inl Exit_failure" .
next
  from example_attrib_returns(3) obtain g' s' where
    e: "kuhl_geometry_attrib 2 example_device (Some example_node_full)
          (Some (replicate 9 0)) 3 (Some ''in_Normal'') 0 = Inr (Some g', s')"
    by blast
  have h: "Some ''in_Normal'' \<in> set (attrib_names example_node_full) \<and>
    kuhl_geometry_attrib 2 example_device (Some example_node_full)
      (Some (replicate 9 0)) 3 (Some ''in_Normal'') 0 = Inr (Some g', s')"
    using e by (simp add: example_attrib_names)
  from capacity_never_exceeded
         [THEN conjunct2, THEN conjunct2, THEN conjunct2, THEN conjunct1, rule_format, OF h]
  have "attrib_count g' = attrib_count example_node_full"
    by simp
  with e show "\<exists>g' s'. kuhl_geometry_attrib 2 example_device (Some example_node_full)
               (Some (replicate 9 0)) 3 (Some ''in_Normal'') 0 = Inr (Some g', s') \<and>
      attrib_count g' = 2"
    by (auto simp: example_node_full_facts)
next
  from example_texture_returns(1) obtain g' s' where
    e: "kuhl_geometry_texture 2 False False (Some ''tex'') 5 [example_node_b] example_device
          = Inr ([g'], s')"
    by blast
  have h: "list_all (texture_capacity_ok 2) [example_node_b] \<and>
    kuhl_geometry_texture 2 False False (Some ''tex'') 5 [example_node_b] example_device
      = Inr ([g'], s')"
    using e example_capacity(2) by simp
  from capacity_never_exceeded
         [THEN conjunct2, THEN conjunct2, THEN conjunct2, THEN conjunct2, THEN conjunct1,
          rule_format, OF h]
  have "texture_capacity_ok 2 g'" by simp
  then have "texture_count g' \<le> 2" by (simp add: texture_capacity_ok_def)
  with e show "\<exists>g' s'. kuhl_geometry_texture 2 False False (Some ''tex'') 5 [example_node_b]
                 example_device = Inr ([g'], s') \<and> texture_count g' \<le> 2"
    by blast
next
  have h: "''tex3'' \<noteq> [] \<and> (5::nat) \<noteq> 0 \<and> glIsTexture example_device 5 \<and>
    glIsVertexArray example_device (vao example_node_a) \<and>
    glGetUniformLocation example_device (program example_node_a) ''tex3'' \<noteq> -1 \<and>
    list_all (texture_capacity_ok 2) [example_node_a, example_node_b] \<and>
    texture_count example_node_a = 2 \<and> ''tex3'' \<notin> set (texture_names example_node_a)"
    using example_capacity(2)
    by (simp add: example_device_facts example_node_a_facts example_texture_names)
  from capacity_never_exceeded
         [THEN conjunct2, THEN conjunct2, THEN conjunct2, THEN conjunct2, THEN conjunct2,
          THEN conjunct1, rule_format, OF h]
  show "kuhl_geometry_texture 2 True False (Some ''tex3'') 5 [example_node_a, example_node_b]
     example_device = Inl Exit_failure" .
next
  from example_texture_returns(2) obtain g' nxt' s' where
    e: "kuhl_geometry_texture 2 False False (Some ''tex'') 7
          [example_node_a, example_node_b] example_device = Inr (g' # nxt', s')"
    by blast
  have h: "''tex'' \<in> set (texture_names example_node_a) \<and>
    kuhl_geometry_texture 2 False False (Some ''tex'') 7
      [example_node_a, example_node_b] example_device = Inr (g' # nxt', s')"
    using e by (simp add: example_texture_names)
  from capacity_never_exceeded
         [THEN conjunct2, THEN conjunct2, THEN conjunct2, THEN conjunct2, THEN conjunct2,
          THEN conjunct2, rule_format, OF h]
  have "texture_count g' = texture_count example_node_a" .
  with e show "\<exists>g' nxt' s'. kuhl_geometry_texture 2 False False (Some ''tex'') 7
                    [example_node_a, example_node_b] example_device = Inr (g' # nxt', s') \<and>
      texture_count g' = 2"
    by (auto simp: example_node_a_facts)
qed

subsection \<open>Names and buffers of the attribute slots\<close>

lemma gen_name_not_zero: "gen_name used \<noteq> 0"
  by (simp add: gen_name_def)

lemma kuhl_geometry_attrib_inactive:
  assumes "glGetAttribLocation s (program g) n = -1"
  shows "\<exists>ms. kuhl_geometry_attrib MAX_ATTRIBUTES s (Some g) data components (Some n) w
           = Inr (Some g, s\<lparr>messages := ms\<rparr>)"
proof -
  have self: "s = s\<lparr>messages := messages s\<rparr>" by simp
  from assms have
    "kuhl_geometry_attrib MAX_ATTRIBUTES s (Some g) data components (Some n) w = Inr (Some g, s) \<or>
     kuhl_geometry_attrib MAX_ATTRIBUTES s (Some g) data components (Some n) w
       = Inr (Some g, msg Warning_attrib_argument s) \<or>
     kuhl_geometry_attrib MAX_ATTRIBUTES s (Some g) data components (Some n) w
       = Inr (Some g, msg (Warning_attrib_missing n (program g)) s)"
    by (auto simp: kuhl_geometry_attrib_def Let_def)
  then show ?thesis
    using self msg_is_update by metis
qed

lemma kuhl_geometry_sanity_check_attribute_eq:
  "kuhl_geometry_sanity_check_attribute s b attributeName p =
     (if attrib_active s p attributeName
      then (if b = 0 then Inl Exit_failure else Inr ())
      else (if glIsBuffer s b then Inl Exit_failure else Inr ()))"
  by (cases attributeName)
     (auto simp: kuhl_geometry_sanity_check_attribute_def attrib_active_def Let_def)

lemma list_all_take_update:
  "list_all P (take n xs) \<Longrightarrow> P x \<Longrightarrow> list_all P (take n (xs[k := x]))"
  by (auto simp: list_all_iff take_update_swap dest: set_update_subset_insert[THEN subsetD])

lemma list_all_take_Suc_update:
  "n < length xs \<Longrightarrow> list_all P (take n xs) \<Longrightarrow> P x \<Longrightarrow> list_all P (take (Suc n) (xs[n := x]))"
  by (simp add: take_Suc_conv_app_nth)

lemma glGenBuffers_not_zero: "glGenBuffers s \<noteq> 0"
  by (simp add: glGenBuffers_def gen_name_def)

lemma attrib_store_attribs:
  assumes "attrib_store MAX_ATTRIBUTES s g d components n loc = Inr (g', s')"
    and "kuhl_geometry_attrib_index (Some g) (Some n) = Inr k"
  shows "attrib_count g' = (if k < 0 then Suc (attrib_count g) else attrib_count g) \<and>
         (if k < 0 then attrib_count g else nat k) < length (attribs g) \<and>
         (\<exists>sx. attribs g' = (attribs g)[(if k < 0 then attrib_count g else nat k) :=
                                \<lparr>name = Some n, bufferobject = glGenBuffers sx\<rparr>])"
  using assms by (auto simp: attrib_store_def Let_def split: if_splits)

lemma attrib_store_consistent:
  assumes "attribs_consistent g"
    and "attrib_store MAX_ATTRIBUTES s g d components n loc = Inr (g', s')"
  shows "attribs_consistent g'"
proof -
  from assms(2) obtain k where k: "kuhl_geometry_attrib_index (Some g) (Some n) = Inr k"
    by (auto simp: attrib_store_def split: sum.splits)
  from kuhl_geometry_attrib_index_range[OF k]
  have r: "k = -1 \<or> (0 \<le> k \<and> k < int (attrib_count g))" by simp
  from attrib_store_attribs[OF assms(2) k] obtain sx where
    cnt: "attrib_count g' = (if k < 0 then Suc (attrib_count g) else attrib_count g)"
    and dl: "(if k < 0 then attrib_count g else nat k) < length (attribs g)"
    and at: "attribs g' = (attribs g)[(if k < 0 then attrib_count g else nat k) :=
                             \<lparr>name = Some n, bufferobject = glGenBuffers sx\<rparr>]"
    by blast
  have new: "attrib_slot_consistent \<lparr>name = Some n, bufferobject = glGenBuffers sx\<rparr>"
    by (simp add: attrib_slot_consistent_def glGenBuffers_not_zero)
  from assms(1) have old: "list_all attrib_slot_consistent (take (attrib_count g) (attribs g))"
    and cl: "attrib_count g \<le> length (attribs g)"
    by (simp_all add: attribs_consistent_def)
  show ?thesis
  proof (cases "k < 0")
    case True
    with dl have "attrib_count g < length (attribs g)" by simp
    from list_all_take_Suc_update[OF this old new] True cnt at this show ?thesis
      by (simp add: attribs_consistent_def)
  next
    case False
    with cnt at cl list_all_take_update[OF old new] show ?thesis
      by (simp add: attribs_consistent_def)
  qed
qed

lemma kuhl_geometry_attrib_consistent:
  assumes "attribs_consistent g"
    and "kuhl_geometry_attrib MAX_ATTRIBUTES s (Some g) data components name' w = Inr (r, s')"
  shows "\<exists>g'. r = Some g' \<and> attribs_consistent g'"
  using kuhl_geometry_attrib_cases[OF assms(2)] assms(1) attrib_store_consistent[OF assms(1)]
  by blast

lemma kuhl_geometry_new_consistent:
  "kuhl_geometry_new s geom p v t = Inr (g0, s0) \<Longrightarrow> attribs_consistent g0"
  by (auto simp: kuhl_geometry_new_def Let_def attribs_consistent_def split: if_splits)

lemma delete_node_consistent:
  "delete_node g s = Inr (g', s') \<Longrightarrow> attribs_consistent g'"
  by (auto simp: delete_node_def Let_def attribs_consistent_def split: if_splits)

lemma example_node_mismatch_facts:
  "program example_node_mismatch = 1" "vertex_count example_node_mismatch = 3"
  "primitive_type example_node_mismatch = GL_TRIANGLES"
  "attrib_count example_node_mismatch = 2"
  "attribs example_node_mismatch = [\<lparr>name = Some ''in_Position'', bufferobject = 1\<rparr>,
                                    \<lparr>name = Some ''in_Color'', bufferobject = 0\<rparr>]"
  by (simp_all add: example_node_mismatch_def example_node_a_def)

lemma example_sanity_check_attribute:
  "kuhl_geometry_sanity_check_attribute example_device 0 (Some ''in_Color'') (Suc 0) = Inr ()"
  "kuhl_geometry_sanity_check_attribute example_device (Suc 0) (Some ''in_Position'') (Suc 0)
     = Inr ()"
  by (simp_all add: kuhl_geometry_sanity_check_attribute_def example_device_facts
      glIsBuffer_def Let_def)

text \<open>
  C6, the claim as it stands: the sanity check makes any mismatch between the name and
  the buffer of an attribute slot fatal. On the code, the check looks at a slot whose
  name the program does not have only for a live buffer: the node whose second slot has
  the name \<^verbatim>\<open>in_Color\<close>, which the program of the example device does not have, and no
  buffer, passes \<^verbatim>\<open>kuhl_geometry_sanity_check\<close>.
\<close>

theorem sanity_check_mismatch_counterexample:
  "attrib_count example_node_mismatch = 2 \<and>
   \<not> attrib_slot_consistent (attribs example_node_mismatch ! 1) \<and>
   kuhl_geometry_sanity_check example_device example_node_mismatch = Inr ()"
proof (intro conjI)
  show "attrib_count example_node_mismatch = 2"
    by (simp add: example_node_mismatch_facts)
  show "\<not> attrib_slot_consistent (attribs example_node_mismatch ! 1)"
    by (simp add: example_node_mismatch_facts attrib_slot_consistent_def)
  have "validate_status example_device (Suc 0)"
    by (simp add: example_device_def)
  then show "kuhl_geometry_sanity_check example_device example_node_mismatch = Inr ()"
    by (simp add: kuhl_geometry_sanity_check_def example_node_mismatch_facts
        example_device_facts example_sanity_check_attribute)
qed

text \<open>
  C6, amended. \<^verbatim>\<open>kuhl_geometry_attrib\<close> with a name that the program of the node does not
  have returns the node as it was and changes nothing of the device but the messages
  printed, so that no buffer is created. A node comes out of \<^verbatim>\<open>kuhl_geometry_new\<close>, of
  \<^verbatim>\<open>kuhl_geometry_attrib\<close> and of the release in \<^verbatim>\<open>kuhl_geometry_delete\<close> with every slot
  in use consistent: a name exactly when a buffer. The sanity check of a slot ends the
  process exactly when the name is active and the buffer handle is 0, or the name is
  not active and the handle is a live buffer.
\<close>

theorem attribute_slots_consistent:
  "(glGetAttribLocation s (program g) n = -1 \<longrightarrow>
      (\<exists>ms. kuhl_geometry_attrib MAX_ATTRIBUTES s (Some g) data components (Some n) w
               = Inr (Some g, s\<lparr>messages := ms\<rparr>))) \<and>
   (kuhl_geometry_new s geom p v t = Inr (g0, s0) \<longrightarrow> attribs_consistent g0) \<and>
   (attribs_consistent g \<and>
    kuhl_geometry_attrib MAX_ATTRIBUTES s (Some g) data components name' w = Inr (r, s') \<longrightarrow>
      (\<exists>g'. r = Some g' \<and> attribs_consistent g')) \<and>
   (delete_node g s = Inr (g1, s1) \<longrightarrow> attribs_consistent g1) \<and>
   kuhl_geometry_sanity_check_attribute s b attributeName q =
     (if attrib_active s q attributeName
      then (if b = 0 then Inl Exit_failure else Inr ())
      else (if glIsBuffer s b then Inl Exit_failure else Inr ()))"
  using kuhl_geometry_attrib_inactive[of s g n MAX_ATTRIBUTES data components w]
    kuhl_geometry_new_consistent[of s geom p v t g0 s0]
    kuhl_geometry_attrib_consistent[of g MAX_ATTRIBUTES s data components name' w r s']
    delete_node_consistent[of g s g1 s1]
    kuhl_geometry_sanity_check_attribute_eq[of s b attributeName q]
  by blast

lemma example_node_a_consistent: "attribs_consistent example_node_a"
  by (simp add: attribs_consistent_def attrib_slot_consistent_def example_node_a_facts)

lemma example_delete_node_returns:
  "\<exists>g1 s1. delete_node example_node_a example_device = Inr (g1, s1)"
  by (simp add: delete_node_def Let_def example_node_a_facts)

text \<open>
  On the example device and its first node: the attribute \<^verbatim>\<open>in_Color\<close>, which the
  program does not have; a new node; the attribute \<^verbatim>\<open>in_Normal\<close>; the release of the
  node; and the check of a slot with the active name \<^verbatim>\<open>in_Position\<close> and no buffer, of
  a slot with the name \<^verbatim>\<open>in_Color\<close> and the live buffer 2, and of a slot with the name
  \<^verbatim>\<open>in_Color\<close> and no buffer.
\<close>

theorem attribute_slots_consistent_witness:
  "(\<exists>ms. kuhl_geometry_attrib 2 example_device (Some example_node_a)
            (Some (replicate 9 0)) 3 (Some ''in_Color'') 1
          = Inr (Some example_node_a, example_device\<lparr>messages := ms\<rparr>)) \<and>
   (\<exists>g0 s0. kuhl_geometry_new example_device example_node_a 1 3 GL_TRIANGLES = Inr (g0, s0) \<and>
      attribs_consistent g0) \<and>
   (\<exists>g' s'. kuhl_geometry_attrib 2 example_device (Some example_node_a)
               (Some (replicate 9 0)) 3 (Some ''in_Normal'') 0 = Inr (Some g', s') \<and>
      attribs_consistent g') \<and>
   (\<exists>g1 s1. delete_node example_node_a example_device = Inr (g1, s1) \<and>
      attribs_consistent g1) \<and>
   kuhl_geometry_sanity_check_attribute example_device 0 (Some ''in_Position'') 1
     = Inl Exit_failure \<and>
   kuhl_geometry_sanity_check_attribute example_device 2 (Some ''in_Color'') 1
     = Inl Exit_failure \<and>
   kuhl_geometry_sanity_check_attribute example_device 0 (Some ''in_Color'') 1 = Inr ()"
proof (intro conjI)
  have h: "glGetAttribLocation example_device (program example_node_a) ''in_Color'' = -1"
    by (simp add: example_node_a_facts example_device_facts)
  from attribute_slots_consistent[THEN conjunct1, rule_format, OF h]
  show "\<exists>ms. kuhl_geometry_attrib 2 example_device (Some example_node_a)
            (Some (replicate 9 0)) 3 (Some ''in_Color'') 1
          = Inr (Some example_node_a, example_device\<lparr>messages := ms\<rparr>)" .
next
  from example_new_returns obtain g0 s0 where
    e: "kuhl_geometry_new example_device example_node_a 1 3 GL_TRIANGLES = Inr (g0, s0)"
    by blast
  from attribute_slots_consistent[THEN conjunct2, THEN conjunct1, rule_format, OF e] e
  show "\<exists>g0 s0. kuhl_geometry_new example_device example_node_a 1 3 GL_TRIANGLES
                 = Inr (g0, s0) \<and> attribs_consistent g0"
    by blast
next
  from example_attrib_returns(1) obtain g' s' where
    e: "kuhl_geometry_attrib 2 example_device (Some example_node_a)
          (Some (replicate 9 0)) 3 (Some ''in_Normal'') 0 = Inr (Some g', s')"
    by blast
  from attribute_slots_consistent
         [THEN conjunct2, THEN conjunct2, THEN conjunct1, rule_format,
          OF conjI [OF example_node_a_consistent e]]
  have "attribs_consistent g'" by simp
  with e show "\<exists>g' s'. kuhl_geometry_attrib 2 example_device (Some example_node_a)
               (Some (replicate 9 0)) 3 (Some ''in_Normal'') 0 = Inr (Some g', s') \<and>
      attribs_consistent g'"
    by blast
next
  from example_delete_node_returns obtain g1 s1 where
    e: "delete_node example_node_a example_device = Inr (g1, s1)" by blast
  from attribute_slots_consistent
         [THEN conjunct2, THEN conjunct2, THEN conjunct2, THEN conjunct1, rule_format, OF e] e
  show "\<exists>g1 s1. delete_node example_node_a example_device = Inr (g1, s1) \<and>
      attribs_consistent g1"
    by blast
next
  note check = attribute_slots_consistent
                 [THEN conjunct2, THEN conjunct2, THEN conjunct2, THEN conjunct2]
  have act: "attrib_active example_device (Suc 0) (Some ''in_Position'')"
    "\<not> attrib_active example_device (Suc 0) (Some ''in_Color'')"
    by (simp_all add: attrib_active_def example_device_facts)
  have buf: "glIsBuffer example_device 2" "\<not> glIsBuffer example_device 0"
    by (simp_all add: glIsBuffer_def example_device_def)
  show "kuhl_geometry_sanity_check_attribute example_device 0 (Some ''in_Position'') 1
     = Inl Exit_failure"
    using check[of example_device 0 "Some ''in_Position''" 1] act by simp
  show "kuhl_geometry_sanity_check_attribute example_device 2 (Some ''in_Color'') 1
     = Inl Exit_failure"
    using check[of example_device 2 "Some ''in_Color''" 1] act buf by simp
  show "kuhl_geometry_sanity_check_attribute example_device 0 (Some ''in_Color'') 1 = Inr ()"
    using check[of example_device 0 "Some ''in_Color''" 1] act buf by simp
qed

end
